theory Spec2Isabelle
  imports Main "HOL-Library.Word"
begin

unbundle bit_operations_syntax

section \<open>UDS data frames: framing and CCMP encryption (\<open>uds_data.cpp\<close>)\<close>

subsection \<open>Machine types\<close>

type_synonym u8 = "8 word"
type_synonym u16 = "16 word"
type_synonym u64 = "64 word"

text \<open>\<open>std::size_t\<close>, taken as 64 bits wide; unsigned arithmetic on it wraps.\<close>
type_synonym size_t = "64 word"

text \<open>
  A \<open>std::array<u8, 16>\<close> (an MD5 digest, an AES block, an AES-128 key) is held as one
  128-bit value: the type fixes the sixteen bytes, and the code only hands such arrays on.
\<close>
type_synonym block16 = "128 word"

text \<open>\<open>using MacAddress = std::array<u8, 6>\<close>: exactly six bytes.\<close>
datatype MacAddress = MacAddress u8 u8 u8 u8 u8 u8

fun mac_bytes :: "MacAddress \<Rightarrow> u8 list" where
  "mac_bytes (MacAddress a b c d e f) = [a, b, c, d, e, f]"

text \<open>The value-initialised (\<open>{}\<close>) address.\<close>
definition mac_zero :: MacAddress where
  "mac_zero = MacAddress 0 0 0 0 0 0"

text \<open>
  \<open>u16_be\<close>: a 16-bit value stored most significant byte first. \<open>u16_be_bytes\<close> is its
  memory image, \<open>u16_be_read\<close> reads such an image back.
\<close>
definition u16_be_bytes :: "u16 \<Rightarrow> u8 list" where
  "u16_be_bytes v = [ucast (drop_bit 8 v), ucast v]"

definition u16_be_read :: "u8 list \<Rightarrow> u16" where
  "u16_be_read bs = push_bit 8 (ucast (bs ! 0)) OR ucast (bs ! 1)"

subsection \<open>Outcomes\<close>

text \<open>
  What a call can end in besides returning. \<open>AssertionFailed\<close> is a failed \<open>ASSERT_MSG\<close>,
  which ends the process. \<open>ReadPastEnd\<close> marks a \<open>std::memcpy\<close> whose source range runs
  beyond the end of the vector it reads: \<open>memcpy\<close> checks nothing, the read is undefined
  behaviour and no value is handed to the caller. \<open>TruncatedFrame\<close> and \<open>InvalidArgument\<close>
  are the failure values of the specification's error taxonomy; no statement of the
  source produces them.
\<close>
datatype error =
    TruncatedFrame
  | InvalidArgument
  | AssertionFailed string
  | ReadPastEnd

text \<open>
  A result of the two crypto operations: the messages handed to \<open>LOG_ERROR\<close> during the
  call, and the returned vector.
\<close>
type_synonym logged_bytes = "string list \<times> u8 list"

subsection \<open>Additional authenticated data\<close>

text \<open>The anonymous struct of \<open>GenerateCCMPAAD\<close>: \<open>u16_be FC; MacAddress A1, A2, A3; u16_be SC\<close>.\<close>
record aad_struct =
  FC :: u16
  A1 :: MacAddress
  A2 :: MacAddress
  A3 :: MacAddress
  SC :: u16

text \<open>
  The memory image copied out by \<open>memcpy\<close>: the members in declaration order. Offsets
  0, 2, 8, 14 and 20 are all even, so the 2-byte alignment of \<open>u16_be\<close> inserts no padding.
\<close>
definition aad_struct_bytes :: "aad_struct \<Rightarrow> u8 list" where
  "aad_struct_bytes s =
     u16_be_bytes (FC s) @ mac_bytes (A1 s) @ mac_bytes (A2 s) @ mac_bytes (A3 s)
       @ u16_be_bytes (SC s)"

definition AADFrameControlMask :: u16 where
  "AADFrameControlMask = 0x8FC7"

definition to_ds_bit :: "u16 \<Rightarrow> bool" where
  "to_ds_bit frame_control = (frame_control AND push_bit 0 1 \<noteq> 0)"

definition from_ds_bit :: "u16 \<Rightarrow> bool" where
  "from_ds_bit frame_control = (frame_control AND push_bit 1 1 \<noteq> 0)"

text \<open>
  Modelled from the spec: \<open>ASSERT_MSG\<close> is a macro of \<open>common/assert.h\<close>, which is not
  among the sources covered here; the specification describes it as a fatal assertion, so a failed
  check ends the call with \<open>AssertionFailed\<close> and nothing after it runs.
\<close>
definition GenerateCCMPAAD ::
    "MacAddress \<Rightarrow> MacAddress \<Rightarrow> MacAddress \<Rightarrow> u16 \<Rightarrow> error + u8 list" where
  "GenerateCCMPAAD sender receiver bssid frame_control =
     (let s0 = \<lparr>FC = 0, A1 = mac_zero, A2 = mac_zero, A3 = mac_zero, SC = 0\<rparr>;
          s1 = s0\<lparr>FC := frame_control AND AADFrameControlMask\<rparr>;
          s2 = s1\<lparr>SC := 0\<rparr>;
          to_ds = to_ds_bit frame_control;
          from_ds = from_ds_bit frame_control
      in if \<not> (to_ds \<noteq> from_ds) then Inl (AssertionFailed ''Invalid combination'')
         else
           let s3 = (if from_ds then s2\<lparr>A1 := receiver, A2 := bssid, A3 := sender\<rparr> else s2);
               s4 = (if to_ds then s3\<lparr>A1 := bssid, A2 := sender, A3 := receiver\<rparr> else s3)
           in Inr (aad_struct_bytes s4))"

subsection \<open>CCM nonce\<close>

text \<open>
  Both crypto functions build the packet number and the nonce inline, with the same
  statements; each copy is transcribed on its own.
\<close>
definition DecryptDataFrame_nonce :: "MacAddress \<Rightarrow> u16 \<Rightarrow> u8 list" where
  "DecryptDataFrame_nonce sender sequence_number =
     (let packet_number = [0, 0, 0, 0,
                           ucast (drop_bit 8 sequence_number AND 0xFF),
                           ucast (sequence_number AND 0xFF)];
          nonce0 = [];
          nonce1 = nonce0 @ [0];
          nonce2 = nonce1 @ mac_bytes sender;
          nonce3 = nonce2 @ packet_number
      in nonce3)"

definition EncryptDataFrame_nonce :: "MacAddress \<Rightarrow> u16 \<Rightarrow> u8 list" where
  "EncryptDataFrame_nonce sender sequence_number =
     (let packet_number = [0, 0, 0, 0,
                           ucast (drop_bit 8 sequence_number AND 0xFF),
                           ucast (sequence_number AND 0xFF)];
          nonce0 = [];
          nonce1 = nonce0 @ [0];
          nonce2 = nonce1 @ mac_bytes sender;
          nonce3 = nonce2 @ packet_number
      in nonce3)"

subsection \<open>Authenticated encryption and decryption\<close>

text \<open>
  The CCM engine (\<open>CryptoPP::CCM<AES, 8>\<close>) is a collaborator outside the source, so it is a
  parameter of the model. An engine takes the tag length of the template instance, the
  key, the nonce and the AAD, and returns \<open>None\<close> where the library throws a
  \<open>CryptoPP::Exception\<close>.
  \<^item> Encryption also takes the plaintext; the lengths declared to \<open>SpecifyDataLengths\<close>
    are the lengths of the AAD and of the plaintext, and the result is what the filter
    lets the caller retrieve.
  \<^item> Decryption also takes the message length declared to \<open>SpecifyDataLengths\<close>, which
    the code computes as \<open>encrypted_payload.size() - 8\<close> in \<open>size_t\<close> (it wraps around for
    a payload of fewer than 8 bytes), and the bytes of the encrypted payload, which the
    code puts on the default channel in two pieces: all but the last 8 bytes, then the
    last 8, the MAC.
\<close>
type_synonym ccm_encryption =
  "nat \<Rightarrow> block16 \<Rightarrow> u8 list \<Rightarrow> u8 list \<Rightarrow> u8 list \<Rightarrow> u8 list option"
type_synonym ccm_decryption =
  "nat \<Rightarrow> block16 \<Rightarrow> u8 list \<Rightarrow> u8 list \<Rightarrow> size_t \<Rightarrow> u8 list \<Rightarrow> u8 list option"

definition DecryptDataFrame ::
    "ccm_decryption \<Rightarrow> u8 list \<Rightarrow> block16 \<Rightarrow> MacAddress \<Rightarrow> MacAddress \<Rightarrow> MacAddress
       \<Rightarrow> u16 \<Rightarrow> u16 \<Rightarrow> error + logged_bytes" where
  "DecryptDataFrame ccm_decrypt encrypted_payload ccmp_key sender receiver bssid
       sequence_number frame_control =
     (case GenerateCCMPAAD sender receiver bssid frame_control of
        Inl e \<Rightarrow> Inl e
      | Inr aad \<Rightarrow>
          (let nonce = DecryptDataFrame_nonce sender sequence_number;
               message_length = (of_nat (length encrypted_payload) :: size_t) - 8
           in case ccm_decrypt 8 ccmp_key nonce aad message_length encrypted_payload of
                Some pdata \<Rightarrow> Inr ([], pdata)
              | None \<Rightarrow> Inr ([''failed to decrypt''], [])))"

definition EncryptDataFrame ::
    "ccm_encryption \<Rightarrow> u8 list \<Rightarrow> block16 \<Rightarrow> MacAddress \<Rightarrow> MacAddress \<Rightarrow> MacAddress
       \<Rightarrow> u16 \<Rightarrow> u16 \<Rightarrow> error + logged_bytes" where
  "EncryptDataFrame ccm_encrypt payload ccmp_key sender receiver bssid
       sequence_number frame_control =
     (case GenerateCCMPAAD sender receiver bssid frame_control of
        Inl e \<Rightarrow> Inl e
      | Inr aad \<Rightarrow>
          (let nonce = EncryptDataFrame_nonce sender sequence_number
           in case ccm_encrypt 8 ccmp_key nonce aad payload of
                Some cipher \<Rightarrow> Inr ([], cipher)
              | None \<Rightarrow> Inr ([''failed to encrypt''], [])))"

text \<open>
  CCM writes the length of the message into the \<open>15 - n\<close> bytes of its first block that an
  \<open>n\<close>-byte nonce leaves free (nonces are 7 to 13 bytes long), so this is the longest
  message an engine takes with such a nonce; \<open>SpecifyDataLengths\<close> throws for a longer one.
\<close>
definition ccm_max_message_length :: "nat \<Rightarrow> nat" where
  "ccm_max_message_length nonce_size = 2 ^ (8 * (15 - nonce_size)) - 1"

text \<open>
  The contract of a CCM engine with an 8-byte tag, as far as the round trip needs it: for
  a nonce of valid size and a plaintext within the length that nonce allows, encryption
  returns a ciphertext, of the plaintext's length plus the tag, and decryption under the
  same key, nonce and AAD, told the plaintext's length, returns the plaintext.
\<close>
definition ccm_contract :: "ccm_encryption \<Rightarrow> ccm_decryption \<Rightarrow> bool" where
  "ccm_contract enc dec \<longleftrightarrow>
     (\<forall>k n a p.
        7 \<le> length n \<and> length n \<le> 13 \<and> length p \<le> ccm_max_message_length (length n) \<longrightarrow>
        (\<exists>c. enc 8 k n a p = Some c \<and> length c = length p + 8
           \<and> dec 8 k n a (of_nat (length p)) c = Some p))"

text \<open>
  A stand-in engine for running the model: the payload is left in the clear, the tag is
  the leading bytes of nonce and AAD (zero-filled), and decryption checks length and tag.
\<close>
definition plain_tag :: "nat \<Rightarrow> u8 list \<Rightarrow> u8 list \<Rightarrow> u8 list" where
  "plain_tag t n a = take t (n @ a @ replicate t 0)"

definition plain_ccm_encrypt :: ccm_encryption where
  "plain_ccm_encrypt t k n a p = Some (p @ plain_tag t n a)"

definition plain_ccm_decrypt :: ccm_decryption where
  "plain_ccm_decrypt t k n a len c =
     (if t \<le> length c \<and> drop (length c - t) c = plain_tag t n a
      then Some (take (length c - t) c) else None)"

text \<open>
  The stand-in with the length limit of CCM: encryption throws for a plaintext longer
  than the nonce allows.
\<close>
definition limited_ccm_encrypt :: ccm_encryption where
  "limited_ccm_encrypt t k n a p =
     (if length p \<le> ccm_max_message_length (length n) then plain_ccm_encrypt t k n a p
      else None)"

text \<open>
  An engine that throws on every encryption, and two engines that hand back the nonce
  they were given; they make the failure path and the nonce observable.
\<close>
definition failing_ccm_encrypt :: ccm_encryption where
  "failing_ccm_encrypt t k n a p = None"

definition nonce_probe_encrypt :: ccm_encryption where
  "nonce_probe_encrypt t k n a p = Some n"

definition nonce_probe_decrypt :: ccm_decryption where
  "nonce_probe_decrypt t k n a len c = Some n"

subsection \<open>Frame headers\<close>

text \<open>
  \<open>enum class EtherType\<close>, by its 16-bit underlying value: a frame can carry any tag.
\<close>
type_synonym EtherType = u16

text \<open>
  Modelled from the spec: the structs \<open>LLCHeader\<close>, \<open>SecureDataHeader\<close>, \<open>EAPoLNodeInfo\<close> and
  \<open>EAPoLStartPacket\<close> and the enumeration \<open>EtherType\<close> are declared in \<open>uds_data.h\<close>, and
  \<open>NodeInfo\<close> and \<open>NetworkInfo\<close> in \<open>nwm_uds.h\<close>; neither header is among the sources covered
  here.
  The members, their order and their widths are taken from the specification's table of
  binary layouts, with multi-byte integers big-endian. What that table leaves open is a
  parameter of the model, gathered in this record: the fixed SNAP bytes that precede the
  protocol tag of an LLC header, the tags of the two enumerators, the fixed type/length
  prelude of an EAPoL-Start packet, and the width in bytes of the username buffer.
\<close>
record uds_data_h =
  llc_fixed_bytes :: "u8 list"
  EtherType_SecureData :: EtherType
  EtherType_EAPoL :: EtherType
  eapol_start_prelude :: "u8 list"
  username_width :: nat

text \<open>
  One choice of these parameters, for running the model on concrete frames.
\<close>
definition example_decls :: uds_data_h where
  "example_decls =
     \<lparr>llc_fixed_bytes = [0xAA, 0xAA, 0x03, 0, 0, 0],
      EtherType_SecureData = 0x876D,
      EtherType_EAPoL = 0x888E,
      eapol_start_prelude = [0x02, 0x01],
      username_width = 20\<rparr>"

text \<open>
  \<open>std::memcpy(&dst, buf.data() + off, n)\<close> out of a vector: the \<open>n\<close> bytes at offset \<open>off\<close>.
  Nothing in \<open>memcpy\<close> looks at the vector's size; a range that leaves the vector is the
  outcome \<open>ReadPastEnd\<close>.
\<close>
definition memcpy_from :: "u8 list \<Rightarrow> nat \<Rightarrow> nat \<Rightarrow> error + u8 list" where
  "memcpy_from buf off n =
     (if off + n \<le> length buf then Inr (take n (drop off buf)) else Inl ReadPastEnd)"

text \<open>
  Modelled from the spec: \<open>LLCHeader\<close> (\<open>uds_data.h\<close>) is the fixed SNAP bytes followed by the
  2-byte protocol tag. A value-initialised header holds the fixed bytes.
\<close>
record LLCHeader =
  llc_fixed :: "u8 list"
  protocol :: EtherType

definition sizeof_LLCHeader :: "uds_data_h \<Rightarrow> nat" where
  "sizeof_LLCHeader h = length (llc_fixed_bytes h) + 2"

definition LLCHeader_bytes :: "LLCHeader \<Rightarrow> u8 list" where
  "LLCHeader_bytes header = llc_fixed header @ u16_be_bytes (protocol header)"

definition LLCHeader_read :: "uds_data_h \<Rightarrow> u8 list \<Rightarrow> LLCHeader" where
  "LLCHeader_read h bs =
     \<lparr>llc_fixed = take (length (llc_fixed_bytes h)) bs,
      protocol = u16_be_read (drop (length (llc_fixed_bytes h)) bs)\<rparr>"

text \<open>
  \<open>GenerateLLCHeader\<close>: a value-initialised header, the protocol assigned, the memory image
  copied out.
\<close>
definition GenerateLLCHeader :: "uds_data_h \<Rightarrow> EtherType \<Rightarrow> u8 list" where
  "GenerateLLCHeader h protocol' =
     (let header0 = \<lparr>llc_fixed = llc_fixed_bytes h, protocol = 0\<rparr>;
          header1 = header0\<lparr>protocol := protocol'\<rparr>
      in LLCHeader_bytes header1)"

text \<open>
  Modelled from the spec: \<open>SecureDataHeader\<close> (\<open>uds_data.h\<close>), laid out as the table has it:
  2 bytes protocol size, 2 bytes secure-data size, 1 byte management flag, 1 byte data
  channel, 2 bytes each for sequence number, destination and source node id; 12 bytes.
\<close>
record SecureDataHeader =
  protocol_size :: u16
  securedata_size :: u16
  is_management :: u8
  data_channel :: u8
  sequence_number :: u16
  dest_node_id :: u16
  src_node_id :: u16

definition sizeof_SecureDataHeader :: nat where
  "sizeof_SecureDataHeader = 12"

definition SecureDataHeader_bytes :: "SecureDataHeader \<Rightarrow> u8 list" where
  "SecureDataHeader_bytes header =
     u16_be_bytes (protocol_size header) @ u16_be_bytes (securedata_size header)
       @ [is_management header, data_channel header]
       @ u16_be_bytes (sequence_number header) @ u16_be_bytes (dest_node_id header)
       @ u16_be_bytes (src_node_id header)"

definition SecureDataHeader_read :: "u8 list \<Rightarrow> SecureDataHeader" where
  "SecureDataHeader_read bs =
     \<lparr>protocol_size = u16_be_read bs,
      securedata_size = u16_be_read (drop 2 bs),
      is_management = bs ! 4,
      data_channel = bs ! 5,
      sequence_number = u16_be_read (drop 6 bs),
      dest_node_id = u16_be_read (drop 8 bs),
      src_node_id = u16_be_read (drop 10 bs)\<rparr>"

text \<open>
  \<open>GenerateSecureDataHeader\<close>. The sums \<open>data_size + sizeof(SecureDataHeader)\<close> are computed
  in \<open>size_t\<close> and cut to 16 bits by the assignment to the \<open>u16_be\<close> members.
\<close>
definition GenerateSecureDataHeader :: "u16 \<Rightarrow> u8 \<Rightarrow> u16 \<Rightarrow> u16 \<Rightarrow> u16 \<Rightarrow> u8 list" where
  "GenerateSecureDataHeader data_size channel dest_node_id' src_node_id' sequence_number' =
     (let header0 = \<lparr>protocol_size = 0, securedata_size = 0, is_management = 0,
                      data_channel = 0, sequence_number = 0, dest_node_id = 0,
                      src_node_id = 0\<rparr>;
          header1 = header0\<lparr>protocol_size :=
                      ucast ((ucast data_size :: size_t) + of_nat sizeof_SecureDataHeader)\<rparr>;
          header2 = header1\<lparr>securedata_size :=
                      ucast ((ucast data_size :: size_t) + of_nat sizeof_SecureDataHeader - 4)\<rparr>;
          header3 = header2\<lparr>is_management := 0\<rparr>;
          header4 = header3\<lparr>data_channel := channel\<rparr>;
          header5 = header4\<lparr>sequence_number := sequence_number'\<rparr>;
          header6 = header5\<lparr>dest_node_id := dest_node_id'\<rparr>;
          header7 = header6\<lparr>src_node_id := src_node_id'\<rparr>
      in SecureDataHeader_bytes header7)"

text \<open>
  \<open>GenerateDataPayload\<close>. \<open>static_cast<u16>(data.size())\<close> keeps the low 16 bits of the length.
\<close>
definition GenerateDataPayload ::
    "uds_data_h \<Rightarrow> u8 list \<Rightarrow> u8 \<Rightarrow> u16 \<Rightarrow> u16 \<Rightarrow> u16 \<Rightarrow> u8 list" where
  "GenerateDataPayload h data channel dest_node src_node sequence_number' =
     (let buffer0 = GenerateLLCHeader h (EtherType_SecureData h);
          securedata_header =
            GenerateSecureDataHeader (ucast (of_nat (length data) :: size_t)) channel
              dest_node src_node sequence_number';
          buffer1 = buffer0 @ securedata_header;
          buffer2 = buffer1 @ data
      in buffer2)"

text \<open>
  \<open>ParseSecureDataHeader\<close> and \<open>GetFrameEtherType\<close>: one \<open>memcpy\<close> each, at the offset after the
  LLC header and at offset 0, with no look at the length of the vector.
\<close>
definition ParseSecureDataHeader :: "uds_data_h \<Rightarrow> u8 list \<Rightarrow> error + SecureDataHeader" where
  "ParseSecureDataHeader h data =
     (case memcpy_from data (sizeof_LLCHeader h) sizeof_SecureDataHeader of
        Inl e \<Rightarrow> Inl e
      | Inr bs \<Rightarrow> Inr (SecureDataHeader_read bs))"

definition GetFrameEtherType :: "uds_data_h \<Rightarrow> u8 list \<Rightarrow> error + EtherType" where
  "GetFrameEtherType h frame =
     (case memcpy_from frame 0 (sizeof_LLCHeader h) of
        Inl e \<Rightarrow> Inl e
      | Inr bs \<Rightarrow> Inr (protocol (LLCHeader_read h bs)))"

subsection \<open>EAPoL-Start frames\<close>

text \<open>
  \<open>u64_be\<close>: a 64-bit value stored most significant byte first.
\<close>
definition u64_be_bytes :: "u64 \<Rightarrow> u8 list" where
  "u64_be_bytes v =
     [ucast (drop_bit 56 v), ucast (drop_bit 48 v), ucast (drop_bit 40 v), ucast (drop_bit 32 v),
      ucast (drop_bit 24 v), ucast (drop_bit 16 v), ucast (drop_bit 8 v), ucast v]"

definition u64_be_read :: "u8 list \<Rightarrow> u64" where
  "u64_be_read bs =
     push_bit 56 (ucast (bs ! 0)) OR push_bit 48 (ucast (bs ! 1))
       OR push_bit 40 (ucast (bs ! 2)) OR push_bit 32 (ucast (bs ! 3))
       OR push_bit 24 (ucast (bs ! 4)) OR push_bit 16 (ucast (bs ! 5))
       OR push_bit 8 (ucast (bs ! 6)) OR ucast (bs ! 7)"

text \<open>
  A \<open>std::array\<close> of \<open>n\<close> bytes holding \<open>xs\<close>: the type fixes the length, so the image of a
  buffer is always \<open>n\<close> bytes (zero-filled, as value-initialisation leaves it).
\<close>
definition fixed_width :: "nat \<Rightarrow> u8 list \<Rightarrow> u8 list" where
  "fixed_width n xs = take n xs @ replicate (n - length xs) 0"

text \<open>
  Modelled from the spec: \<open>NodeInfo\<close> (\<open>nwm_uds.h\<close>) and the node record \<open>EAPoLNodeInfo\<close>
  (\<open>uds_data.h\<close>) hold a friend-code seed, a fixed-width username buffer and a network node
  id; the record on the wire is 8 bytes seed, the username buffer, 2 bytes node id. The
  source gives both structs the same member names; the members of the wire record carry
  the prefix \<open>eapol_\<close> here.
\<close>
record NodeInfo =
  friend_code_seed :: u64
  username :: "u8 list"
  network_node_id :: u16

record EAPoLNodeInfo =
  eapol_friend_code_seed :: u64
  eapol_username :: "u8 list"
  eapol_network_node_id :: u16

text \<open>
  Modelled from the spec: \<open>EAPoLStartPacket\<close> (\<open>uds_data.h\<close>) is the fixed prelude, the 2-byte
  association id and the embedded node record.
\<close>
record EAPoLStartPacket =
  prelude :: "u8 list"
  association_id :: u16
  node :: EAPoLNodeInfo

definition sizeof_EAPoLNodeInfo :: "uds_data_h \<Rightarrow> nat" where
  "sizeof_EAPoLNodeInfo h = 8 + username_width h + 2"

definition sizeof_EAPoLStartPacket :: "uds_data_h \<Rightarrow> nat" where
  "sizeof_EAPoLStartPacket h = length (eapol_start_prelude h) + 2 + sizeof_EAPoLNodeInfo h"

definition EAPoLNodeInfo_bytes :: "uds_data_h \<Rightarrow> EAPoLNodeInfo \<Rightarrow> u8 list" where
  "EAPoLNodeInfo_bytes h n =
     u64_be_bytes (eapol_friend_code_seed n)
       @ fixed_width (username_width h) (eapol_username n)
       @ u16_be_bytes (eapol_network_node_id n)"

definition EAPoLNodeInfo_read :: "uds_data_h \<Rightarrow> u8 list \<Rightarrow> EAPoLNodeInfo" where
  "EAPoLNodeInfo_read h bs =
     \<lparr>eapol_friend_code_seed = u64_be_read bs,
      eapol_username = take (username_width h) (drop 8 bs),
      eapol_network_node_id = u16_be_read (drop (8 + username_width h) bs)\<rparr>"

definition EAPoLStartPacket_bytes :: "uds_data_h \<Rightarrow> EAPoLStartPacket \<Rightarrow> u8 list" where
  "EAPoLStartPacket_bytes h p =
     fixed_width (length (eapol_start_prelude h)) (prelude p)
       @ u16_be_bytes (association_id p) @ EAPoLNodeInfo_bytes h (node p)"

definition EAPoLStartPacket_read :: "uds_data_h \<Rightarrow> u8 list \<Rightarrow> EAPoLStartPacket" where
  "EAPoLStartPacket_read h bs =
     \<lparr>prelude = take (length (eapol_start_prelude h)) bs,
      association_id = u16_be_read (drop (length (eapol_start_prelude h)) bs),
      node = EAPoLNodeInfo_read h (drop (length (eapol_start_prelude h) + 2) bs)\<rparr>"

text \<open>
  \<open>GenerateEAPoLStartFrame\<close>: the packet is value-initialised; the association id, the
  friend-code seed and the username are assigned, the network node id is not.
\<close>
definition GenerateEAPoLStartFrame :: "uds_data_h \<Rightarrow> u16 \<Rightarrow> NodeInfo \<Rightarrow> u8 list" where
  "GenerateEAPoLStartFrame h association_id' node_info =
     (let eapol_start0 =
            \<lparr>prelude = eapol_start_prelude h, association_id = 0,
             node = \<lparr>eapol_friend_code_seed = 0,
                     eapol_username = replicate (username_width h) 0,
                     eapol_network_node_id = 0\<rparr>\<rparr>;
          eapol_start1 = eapol_start0\<lparr>association_id := association_id'\<rparr>;
          eapol_start2 = eapol_start1\<lparr>node :=
            (node eapol_start1)\<lparr>eapol_friend_code_seed := friend_code_seed node_info\<rparr>\<rparr>;
          eapol_start3 = eapol_start2\<lparr>node :=
            (node eapol_start2)\<lparr>eapol_username :=
               fixed_width (username_width h) (username node_info)\<rparr>\<rparr>;
          eapol_buffer = EAPoLStartPacket_bytes h eapol_start3;
          buffer0 = GenerateLLCHeader h (EtherType_EAPoL h);
          buffer1 = buffer0 @ eapol_buffer
      in buffer1)"

text \<open>
  \<open>DeserializeNodeInfoFromFrame\<close>: the packet is copied from behind the LLC header; the
  returned \<open>NodeInfo\<close> is value-initialised, then seed and username are assigned.
  \<open>DeserializeNodeInfo\<close> converts a node record and assigns the network node id as well.
\<close>
definition DeserializeNodeInfoFromFrame :: "uds_data_h \<Rightarrow> u8 list \<Rightarrow> error + NodeInfo" where
  "DeserializeNodeInfoFromFrame h frame =
     (case memcpy_from frame (sizeof_LLCHeader h) (sizeof_EAPoLStartPacket h) of
        Inl e \<Rightarrow> Inl e
      | Inr bs \<Rightarrow>
          (let eapol_start = EAPoLStartPacket_read h bs;
               node0 = \<lparr>friend_code_seed = 0, username = replicate (username_width h) 0,
                        network_node_id = 0\<rparr>;
               node1 = node0\<lparr>friend_code_seed := eapol_friend_code_seed (node eapol_start)\<rparr>;
               node2 = node1\<lparr>username :=
                         fixed_width (username_width h) (eapol_username (node eapol_start))\<rparr>
           in Inr node2))"

definition DeserializeNodeInfo :: "uds_data_h \<Rightarrow> EAPoLNodeInfo \<Rightarrow> NodeInfo" where
  "DeserializeNodeInfo h n =
     (let node_info0 = \<lparr>friend_code_seed = 0, username = replicate (username_width h) 0,
                         network_node_id = 0\<rparr>;
          node_info1 = node_info0\<lparr>friend_code_seed := eapol_friend_code_seed n\<rparr>;
          node_info2 = node_info1\<lparr>network_node_id := eapol_network_node_id n\<rparr>;
          node_info3 = node_info2\<lparr>username :=
                         fixed_width (username_width h) (eapol_username n)\<rparr>
      in node_info3)"

subsection \<open>Key derivation\<close>

text \<open>
  Modelled from the spec: of \<open>NetworkInfo\<close> (\<open>nwm_uds.h\<close>) the key derivation reads the host
  MAC address, the wireless community id, the instantiation id (\<open>id\<close> in the source, \<open>id'\<close>
  here) and the network id. The widths of the three ids are not given, so their types
  are left open.
\<close>
record ('w, 'i, 'n) NetworkInfo =
  host_mac_address :: MacAddress
  wlan_comm_id :: 'w
  id' :: 'i
  network_id :: 'n

text \<open>
  \<open>DataFrameCryptoCTR\<close> (\<open>uds_data.h\<close>): the struct that \<open>GetDataCryptoCTR\<close> fills from the
  network info and hashes. Its members carry the prefix \<open>ctr_\<close> where the source reuses a
  name of \<open>NetworkInfo\<close>.
\<close>
record ('w, 'i, 'n) DataFrameCryptoCTR =
  host_mac :: MacAddress
  ctr_wlan_comm_id :: 'w
  ctr_id :: 'i
  ctr_network_id :: 'n

text \<open>
  Modelled from the spec: the memory image of \<open>DataFrameCryptoCTR\<close>, whose declaration is
  missing: host MAC address, wireless community id, instantiation id, network id, in this
  order with no padding. The byte images of the three ids are parameters.
\<close>
definition DataFrameCryptoCTR_bytes ::
    "('w \<Rightarrow> u8 list) \<Rightarrow> ('i \<Rightarrow> u8 list) \<Rightarrow> ('n \<Rightarrow> u8 list)
       \<Rightarrow> ('w, 'i, 'n) DataFrameCryptoCTR \<Rightarrow> u8 list" where
  "DataFrameCryptoCTR_bytes wlan_comm_id_bytes id_bytes network_id_bytes d =
     mac_bytes (host_mac d) @ wlan_comm_id_bytes (ctr_wlan_comm_id d)
       @ id_bytes (ctr_id d) @ network_id_bytes (ctr_network_id d)"

text \<open>
  \<open>GetDataCryptoCTR\<close>. MD5 (\<open>CryptoPP::Weak::MD5\<close>) is a parameter, and so is the memory
  image of the struct that is hashed.
\<close>
definition GetDataCryptoCTR ::
    "(u8 list \<Rightarrow> block16) \<Rightarrow> (('w, 'i, 'n) DataFrameCryptoCTR \<Rightarrow> u8 list)
       \<Rightarrow> ('w, 'i, 'n) NetworkInfo \<Rightarrow> block16" where
  "GetDataCryptoCTR md5 struct_bytes network_info =
     (let data = \<lparr>host_mac = host_mac_address network_info,
                  ctr_wlan_comm_id = wlan_comm_id network_info,
                  ctr_id = id' network_info,
                  ctr_network_id = network_id network_info\<rparr>;
          hash = md5 (struct_bytes data)
      in hash)"

text \<open>
  \<open>HW::AES::KeySlotID::UDSDataKey\<close>; the source's comment names it keyslot 0x2D.
\<close>
definition UDSDataKey :: nat where
  "UDSDataKey = 0x2D"

text \<open>
  \<open>GenerateDataCCMPKey\<close>. Parameters: MD5, AES in counter mode (key, initial counter block,
  16 bytes in, 16 bytes out) and \<open>HW::AES::GetNormalKey\<close>.
\<close>
definition GenerateDataCCMPKey ::
    "(u8 list \<Rightarrow> block16) \<Rightarrow> (block16 \<Rightarrow> block16 \<Rightarrow> block16 \<Rightarrow> block16) \<Rightarrow> (nat \<Rightarrow> block16)
       \<Rightarrow> (('w, 'i, 'n) DataFrameCryptoCTR \<Rightarrow> u8 list)
       \<Rightarrow> u8 list \<Rightarrow> ('w, 'i, 'n) NetworkInfo \<Rightarrow> block16" where
  "GenerateDataCCMPKey md5 aes_ctr GetNormalKey struct_bytes passphrase network_info =
     (let passphrase_hash = md5 passphrase;
          counter = GetDataCryptoCTR md5 struct_bytes network_info;
          key = GetNormalKey UDSDataKey;
          ccmp_key = aes_ctr key counter passphrase_hash
      in ccmp_key)"

section \<open>Properties\<close>

lemma length_mac_bytes: "length (mac_bytes m) = 6"
  by (cases m) simp

lemma u16_be_read_bytes: "u16_be_read (u16_be_bytes v) = v"
  unfolding u16_be_read_def u16_be_bytes_def
  by (rule bit_word_eqI) (auto simp add: bit_simps)


lemma to_ds_bit_iff: "to_ds_bit fc \<longleftrightarrow> bit fc 0"
  by (simp add: to_ds_bit_def and_one_eq mod_2_eq_odd bit_0)

lemma from_ds_bit_iff: "from_ds_bit fc \<longleftrightarrow> bit fc 1"
  using and_exp_eq_0_iff_not_bit [of fc 1]
  by (simp add: from_ds_bit_def)

lemma low_byte_mask: "(ucast ((w :: u16) AND 0xFF) :: u8) = ucast w"
proof -
  have ff: "(0xFF :: u16) = mask 8"
    by (simp add: mask_eq_exp_minus_1)
  show ?thesis
    unfolding ff by (rule bit_word_eqI) (auto simp add: bit_simps)
qed

lemma EncryptDataFrame_nonce_eq:
  "EncryptDataFrame_nonce s q = [0] @ mac_bytes s @ [0, 0, 0, 0] @ u16_be_bytes q"
  by (simp add: EncryptDataFrame_nonce_def u16_be_bytes_def low_byte_mask)

lemma DecryptDataFrame_nonce_eq:
  "DecryptDataFrame_nonce s q = [0] @ mac_bytes s @ [0, 0, 0, 0] @ u16_be_bytes q"
  by (simp add: DecryptDataFrame_nonce_def u16_be_bytes_def low_byte_mask)

lemma GenerateCCMPAAD_from_ds:
  assumes "from_ds_bit fc" "\<not> to_ds_bit fc"
  shows "GenerateCCMPAAD s r b fc =
     Inr (u16_be_bytes (fc AND 0x8FC7) @ mac_bytes r @ mac_bytes b @ mac_bytes s
          @ u16_be_bytes 0)"
  using assms
  by (simp add: GenerateCCMPAAD_def Let_def aad_struct_bytes_def AADFrameControlMask_def)

lemma GenerateCCMPAAD_to_ds:
  assumes "to_ds_bit fc" "\<not> from_ds_bit fc"
  shows "GenerateCCMPAAD s r b fc =
     Inr (u16_be_bytes (fc AND 0x8FC7) @ mac_bytes b @ mac_bytes s @ mac_bytes r
          @ u16_be_bytes 0)"
  using assms
  by (simp add: GenerateCCMPAAD_def Let_def aad_struct_bytes_def AADFrameControlMask_def)

lemma GenerateCCMPAAD_invalid:
  assumes "to_ds_bit fc = from_ds_bit fc"
  shows "GenerateCCMPAAD s r b fc = Inl (AssertionFailed ''Invalid combination'')"
  using assms by (simp add: GenerateCCMPAAD_def Let_def)

lemma GenerateCCMPAAD_valid:
  assumes "to_ds_bit fc \<noteq> from_ds_bit fc"
  shows "\<exists>aad. GenerateCCMPAAD s r b fc = Inr aad"
  using assms GenerateCCMPAAD_from_ds [of fc s r b] GenerateCCMPAAD_to_ds [of fc s r b]
  by (cases "from_ds_bit fc") auto

lemma length_u16_be_bytes: "length (u16_be_bytes v) = 2"
  by (simp add: u16_be_bytes_def)

text \<open>
  C3: for every sender, receiver and bssid address and every frame control with exactly
  one of to-DS (bit 0) and from-DS (bit 1) set, \<open>GenerateCCMPAAD\<close> returns exactly 22 bytes:
  the frame control ANDed with 0x8FC7 in two bytes, three 6-byte addresses and a zero
  2-byte sequence control, the addresses being receiver, bssid, sender when from-DS is set
  and bssid, sender, receiver when to-DS is set.
\<close>
theorem buildAAD_layout:
  assumes "bit frame_control 0 \<noteq> bit frame_control 1"
  shows "\<exists>aad. GenerateCCMPAAD sender receiver bssid frame_control = Inr aad
           \<and> length aad = 22
           \<and> take 2 aad = u16_be_bytes (frame_control AND 0x8FC7)
           \<and> take 6 (drop 2 aad) = mac_bytes (if bit frame_control 1 then receiver else bssid)
           \<and> take 6 (drop 8 aad) = mac_bytes (if bit frame_control 1 then bssid else sender)
           \<and> take 6 (drop 14 aad) = mac_bytes (if bit frame_control 1 then sender else receiver)
           \<and> drop 20 aad = [0, 0]"
proof (cases "bit frame_control 1")
  case True
  with assms have "from_ds_bit frame_control" "\<not> to_ds_bit frame_control"
    by (simp_all add: to_ds_bit_iff from_ds_bit_iff)
  from GenerateCCMPAAD_from_ds [OF this, of sender receiver bssid] True
  show ?thesis
    by (simp add: length_mac_bytes length_u16_be_bytes) (simp add: u16_be_bytes_def)
next
  case False
  with assms have "to_ds_bit frame_control" "\<not> from_ds_bit frame_control"
    by (simp_all add: to_ds_bit_iff from_ds_bit_iff)
  from GenerateCCMPAAD_to_ds [OF this, of sender receiver bssid] False
  show ?thesis
    by (simp add: length_mac_bytes length_u16_be_bytes) (simp add: u16_be_bytes_def)
qed

text \<open>
  The layout at a from-DS frame control whose bits outside the mask are partly set.
\<close>
theorem buildAAD_layout_witness:
  "bit (0x0842 :: u16) 0 \<noteq> bit (0x0842 :: u16) 1
   \<and> GenerateCCMPAAD (MacAddress 1 2 3 4 5 6) (MacAddress 7 8 9 10 11 12)
         (MacAddress 13 14 15 16 17 18) 0x0842
       = Inr [0x08, 0x42, 7, 8, 9, 10, 11, 12, 13, 14, 15, 16, 17, 18, 1, 2, 3, 4, 5, 6, 0, 0]"
proof -
  have h: "bit (0x0842 :: u16) 0 \<noteq> bit (0x0842 :: u16) 1"
    by (simp add: bit_0 bit_numeral_rec)
  from buildAAD_layout [OF h, of "MacAddress 1 2 3 4 5 6" "MacAddress 7 8 9 10 11 12"
      "MacAddress 13 14 15 16 17 18"]
  obtain aad where
    "GenerateCCMPAAD (MacAddress 1 2 3 4 5 6) (MacAddress 7 8 9 10 11 12)
         (MacAddress 13 14 15 16 17 18) 0x0842 = Inr aad"
    by blast
  moreover have "GenerateCCMPAAD (MacAddress 1 2 3 4 5 6) (MacAddress 7 8 9 10 11 12)
         (MacAddress 13 14 15 16 17 18) 0x0842
       = Inr [0x08, 0x42, 7, 8, 9, 10, 11, 12, 13, 14, 15, 16, 17, 18, 1, 2, 3, 4, 5, 6, 0, 0]"
    by (simp add: GenerateCCMPAAD_def Let_def aad_struct_bytes_def AADFrameControlMask_def
        u16_be_bytes_def to_ds_bit_def from_ds_bit_def mac_zero_def)
  ultimately show ?thesis using h by simp
qed

text \<open>
  C6: \<open>GenerateCCMPAAD\<close>, and with it \<open>EncryptDataFrame\<close> and \<open>DecryptDataFrame\<close>, ends in the
  failed assertion whenever the to-DS and from-DS bits are both set or both clear; for
  every frame control with exactly one of them set the assertion does not fire, an AAD is
  produced and both crypto functions return.
\<close>
theorem buildAAD_assertion:
  "(bit frame_control 0 = bit frame_control 1 \<longrightarrow>
       GenerateCCMPAAD sender receiver bssid frame_control
         = Inl (AssertionFailed ''Invalid combination'')
     \<and> EncryptDataFrame enc payload key sender receiver bssid seq frame_control
         = Inl (AssertionFailed ''Invalid combination'')
     \<and> DecryptDataFrame dec payload key sender receiver bssid seq frame_control
         = Inl (AssertionFailed ''Invalid combination''))
   \<and> (bit frame_control 0 \<noteq> bit frame_control 1 \<longrightarrow>
       (\<exists>aad. GenerateCCMPAAD sender receiver bssid frame_control = Inr aad)
     \<and> (\<exists>res. EncryptDataFrame enc payload key sender receiver bssid seq frame_control = Inr res)
     \<and> (\<exists>res. DecryptDataFrame dec payload key sender receiver bssid seq frame_control = Inr res))"
proof (intro conjI impI)
  assume eq: "bit frame_control 0 = bit frame_control 1"
  then have "to_ds_bit frame_control = from_ds_bit frame_control"
    by (simp add: to_ds_bit_iff from_ds_bit_iff)
  then have a: "GenerateCCMPAAD sender receiver bssid frame_control
      = Inl (AssertionFailed ''Invalid combination'')"
    by (rule GenerateCCMPAAD_invalid)
  show "GenerateCCMPAAD sender receiver bssid frame_control
      = Inl (AssertionFailed ''Invalid combination'')"
    by (rule a)
  show "EncryptDataFrame enc payload key sender receiver bssid seq frame_control
      = Inl (AssertionFailed ''Invalid combination'')"
    by (simp add: EncryptDataFrame_def a)
  show "DecryptDataFrame dec payload key sender receiver bssid seq frame_control
      = Inl (AssertionFailed ''Invalid combination'')"
    by (simp add: DecryptDataFrame_def a)
next
  assume "bit frame_control 0 \<noteq> bit frame_control 1"
  then have "to_ds_bit frame_control \<noteq> from_ds_bit frame_control"
    by (simp add: to_ds_bit_iff from_ds_bit_iff)
  then obtain aad where a: "GenerateCCMPAAD sender receiver bssid frame_control = Inr aad"
    using GenerateCCMPAAD_valid by blast
  show "\<exists>aad. GenerateCCMPAAD sender receiver bssid frame_control = Inr aad"
    using a by blast
  show "\<exists>res. EncryptDataFrame enc payload key sender receiver bssid seq frame_control = Inr res"
    by (simp add: EncryptDataFrame_def a Let_def split: option.split)
  show "\<exists>res. DecryptDataFrame dec payload key sender receiver bssid seq frame_control = Inr res"
    by (simp add: DecryptDataFrame_def a Let_def split: option.split)
qed

text \<open>
  Both bits set, both bits clear, and to-DS alone.
\<close>
theorem buildAAD_assertion_witness:
  "bit (3 :: u16) 0 = bit (3 :: u16) 1
   \<and> GenerateCCMPAAD (MacAddress 1 2 3 4 5 6) (MacAddress 7 8 9 10 11 12)
        (MacAddress 13 14 15 16 17 18) 3 = Inl (AssertionFailed ''Invalid combination'')
   \<and> bit (0 :: u16) 0 = bit (0 :: u16) 1
   \<and> DecryptDataFrame plain_ccm_decrypt [1, 2, 3] 0 (MacAddress 1 2 3 4 5 6)
        (MacAddress 7 8 9 10 11 12) (MacAddress 13 14 15 16 17 18) 5 0
        = Inl (AssertionFailed ''Invalid combination'')
   \<and> bit (1 :: u16) 0 \<noteq> bit (1 :: u16) 1
   \<and> (\<exists>res. EncryptDataFrame plain_ccm_encrypt [1, 2, 3] 0 (MacAddress 1 2 3 4 5 6)
        (MacAddress 7 8 9 10 11 12) (MacAddress 13 14 15 16 17 18) 5 1 = Inr res)"
proof -
  have h3: "bit (3 :: u16) 0 = bit (3 :: u16) 1"
    by (simp add: bit_0 bit_numeral_rec)
  have h0: "bit (0 :: u16) 0 = bit (0 :: u16) 1"
    by simp
  have h1: "bit (1 :: u16) 0 \<noteq> bit (1 :: u16) 1"
    by (simp add: bit_0)
  note t3 = buildAAD_assertion [of 3 "MacAddress 1 2 3 4 5 6" "MacAddress 7 8 9 10 11 12"
      "MacAddress 13 14 15 16 17 18" plain_ccm_encrypt "[1, 2, 3]" 0 5 plain_ccm_decrypt]
  note t0 = buildAAD_assertion [of 0 "MacAddress 1 2 3 4 5 6" "MacAddress 7 8 9 10 11 12"
      "MacAddress 13 14 15 16 17 18" plain_ccm_encrypt "[1, 2, 3]" 0 5 plain_ccm_decrypt]
  note t1 = buildAAD_assertion [of 1 "MacAddress 1 2 3 4 5 6" "MacAddress 7 8 9 10 11 12"
      "MacAddress 13 14 15 16 17 18" plain_ccm_encrypt "[1, 2, 3]" 0 5 plain_ccm_decrypt]
  from t3 h3 have "GenerateCCMPAAD (MacAddress 1 2 3 4 5 6) (MacAddress 7 8 9 10 11 12)
        (MacAddress 13 14 15 16 17 18) 3 = Inl (AssertionFailed ''Invalid combination'')"
    by blast
  moreover from t0 h0 have "DecryptDataFrame plain_ccm_decrypt [1, 2, 3] 0 (MacAddress 1 2 3 4 5 6)
        (MacAddress 7 8 9 10 11 12) (MacAddress 13 14 15 16 17 18) 5 0
        = Inl (AssertionFailed ''Invalid combination'')"
    by blast
  moreover from t1 h1 have "\<exists>res. EncryptDataFrame plain_ccm_encrypt [1, 2, 3] 0 (MacAddress 1 2 3 4 5 6)
        (MacAddress 7 8 9 10 11 12) (MacAddress 13 14 15 16 17 18) 5 1 = Inr res"
    by blast
  ultimately show ?thesis using h3 h0 h1 by blast
qed


lemma DecryptDataFrame_cases:
  "(\<exists>msg. DecryptDataFrame dec ep key s r b q fc = Inl (AssertionFailed msg))
   \<or> (\<exists>pdata. DecryptDataFrame dec ep key s r b q fc = Inr ([], pdata))
   \<or> DecryptDataFrame dec ep key s r b q fc = Inr ([''failed to decrypt''], [])"
proof (cases "to_ds_bit fc = from_ds_bit fc")
  case True
  then show ?thesis
    by (simp add: DecryptDataFrame_def GenerateCCMPAAD_invalid)
next
  case False
  then obtain aad where "GenerateCCMPAAD s r b fc = Inr aad"
    using GenerateCCMPAAD_valid by blast
  then show ?thesis
    by (simp add: DecryptDataFrame_def Let_def split: option.split)
qed

lemma EncryptDataFrame_cases:
  "(\<exists>msg. EncryptDataFrame enc p key s r b q fc = Inl (AssertionFailed msg))
   \<or> (\<exists>cipher. EncryptDataFrame enc p key s r b q fc = Inr ([], cipher))
   \<or> EncryptDataFrame enc p key s r b q fc = Inr ([''failed to encrypt''], [])"
proof (cases "to_ds_bit fc = from_ds_bit fc")
  case True
  then show ?thesis
    by (simp add: EncryptDataFrame_def GenerateCCMPAAD_invalid)
next
  case False
  then obtain aad where "GenerateCCMPAAD s r b fc = Inr aad"
    using GenerateCCMPAAD_valid by blast
  then show ?thesis
    by (simp add: EncryptDataFrame_def Let_def split: option.split)
qed

text \<open>
  C7: whenever the CCM engine throws during \<open>DecryptDataFrame\<close> (a tag that does not
  verify, a truncated input, an AAD that does not match) or during \<open>EncryptDataFrame\<close>, the
  function logs the error and returns the empty vector; a call of either function ends
  in the assertion of the AAD, in a returned vector with nothing logged, or in the logged
  error with the empty vector, and in nothing else: no engine exception reaches the
  caller.
\<close>
theorem crypto_failures_absorbed:
  "(GenerateCCMPAAD sender receiver bssid frame_control = Inr aad
      \<and> dec 8 key (DecryptDataFrame_nonce sender seq) aad
            ((of_nat (length encrypted_payload) :: size_t) - 8) encrypted_payload = None
     \<longrightarrow> DecryptDataFrame dec encrypted_payload key sender receiver bssid seq frame_control
           = Inr ([''failed to decrypt''], []))
   \<and> (GenerateCCMPAAD sender receiver bssid frame_control = Inr aad
      \<and> enc 8 key (EncryptDataFrame_nonce sender seq) aad payload = None
     \<longrightarrow> EncryptDataFrame enc payload key sender receiver bssid seq frame_control
           = Inr ([''failed to encrypt''], []))
   \<and> ((\<exists>msg. DecryptDataFrame dec encrypted_payload key sender receiver bssid seq frame_control
             = Inl (AssertionFailed msg))
      \<or> (\<exists>pdata. DecryptDataFrame dec encrypted_payload key sender receiver bssid seq
             frame_control = Inr ([], pdata))
      \<or> DecryptDataFrame dec encrypted_payload key sender receiver bssid seq frame_control
             = Inr ([''failed to decrypt''], []))
   \<and> ((\<exists>msg. EncryptDataFrame enc payload key sender receiver bssid seq frame_control
             = Inl (AssertionFailed msg))
      \<or> (\<exists>cipher. EncryptDataFrame enc payload key sender receiver bssid seq frame_control
             = Inr ([], cipher))
      \<or> EncryptDataFrame enc payload key sender receiver bssid seq frame_control
             = Inr ([''failed to encrypt''], []))"
proof (intro conjI impI)
  assume "GenerateCCMPAAD sender receiver bssid frame_control = Inr aad
      \<and> dec 8 key (DecryptDataFrame_nonce sender seq) aad
            ((of_nat (length encrypted_payload) :: size_t) - 8) encrypted_payload = None"
  then show "DecryptDataFrame dec encrypted_payload key sender receiver bssid seq frame_control
           = Inr ([''failed to decrypt''], [])"
    by (simp add: DecryptDataFrame_def Let_def)
next
  assume "GenerateCCMPAAD sender receiver bssid frame_control = Inr aad
      \<and> enc 8 key (EncryptDataFrame_nonce sender seq) aad payload = None"
  then show "EncryptDataFrame enc payload key sender receiver bssid seq frame_control
           = Inr ([''failed to encrypt''], [])"
    by (simp add: EncryptDataFrame_def Let_def)
next
  show "(\<exists>msg. DecryptDataFrame dec encrypted_payload key sender receiver bssid seq frame_control
             = Inl (AssertionFailed msg))
      \<or> (\<exists>pdata. DecryptDataFrame dec encrypted_payload key sender receiver bssid seq
             frame_control = Inr ([], pdata))
      \<or> DecryptDataFrame dec encrypted_payload key sender receiver bssid seq frame_control
             = Inr ([''failed to decrypt''], [])"
    by (rule DecryptDataFrame_cases)
next
  show "(\<exists>msg. EncryptDataFrame enc payload key sender receiver bssid seq frame_control
             = Inl (AssertionFailed msg))
      \<or> (\<exists>cipher. EncryptDataFrame enc payload key sender receiver bssid seq frame_control
             = Inr ([], cipher))
      \<or> EncryptDataFrame enc payload key sender receiver bssid seq frame_control
             = Inr ([''failed to encrypt''], [])"
    by (rule EncryptDataFrame_cases)
qed

lemma example_aad:
  "GenerateCCMPAAD (MacAddress 1 2 3 4 5 6) (MacAddress 7 8 9 10 11 12)
        (MacAddress 13 14 15 16 17 18) 0x0841
     = Inr [0x08, 0x41, 13, 14, 15, 16, 17, 18, 1, 2, 3, 4, 5, 6, 7, 8, 9, 10, 11, 12, 0, 0]"
  by (simp add: GenerateCCMPAAD_def Let_def aad_struct_bytes_def AADFrameControlMask_def
        u16_be_bytes_def to_ds_bit_def from_ds_bit_def mac_zero_def)

lemma example_nonce:
  "DecryptDataFrame_nonce (MacAddress 1 2 3 4 5 6) 0x1234 = [0, 1, 2, 3, 4, 5, 6, 0, 0, 0, 0, 0x12, 0x34]"
  "EncryptDataFrame_nonce (MacAddress 1 2 3 4 5 6) 0x1234 = [0, 1, 2, 3, 4, 5, 6, 0, 0, 0, 0, 0x12, 0x34]"
  by (simp_all add: DecryptDataFrame_nonce_eq EncryptDataFrame_nonce_eq u16_be_bytes_def)

text \<open>
  A three-byte input, too short to hold a tag, is rejected by the stand-in engine; the
  failing engine rejects every encryption.
\<close>
theorem crypto_failures_absorbed_witness:
  "DecryptDataFrame plain_ccm_decrypt [1, 2, 3] 0 (MacAddress 1 2 3 4 5 6)
       (MacAddress 7 8 9 10 11 12) (MacAddress 13 14 15 16 17 18) 0x1234 0x0841
     = Inr ([''failed to decrypt''], [])
   \<and> EncryptDataFrame failing_ccm_encrypt [1, 2, 3] 0 (MacAddress 1 2 3 4 5 6)
       (MacAddress 7 8 9 10 11 12) (MacAddress 13 14 15 16 17 18) 0x1234 0x0841
     = Inr ([''failed to encrypt''], [])"
proof -
  let ?aad = "[0x08, 0x41, 13, 14, 15, 16, 17, 18, 1, 2, 3, 4, 5, 6, 7, 8, 9, 10, 11, 12, 0, 0] :: u8 list"
  have d: "plain_ccm_decrypt 8 0 (DecryptDataFrame_nonce (MacAddress 1 2 3 4 5 6) 0x1234) ?aad
             ((of_nat (length [1, 2, 3 :: u8]) :: size_t) - 8) [1, 2, 3] = None"
    by (simp add: plain_ccm_decrypt_def)
  have e: "failing_ccm_encrypt 8 0 (EncryptDataFrame_nonce (MacAddress 1 2 3 4 5 6) 0x1234) ?aad
             [1, 2, 3] = None"
    by (simp add: failing_ccm_encrypt_def)
  from crypto_failures_absorbed [of "MacAddress 1 2 3 4 5 6" "MacAddress 7 8 9 10 11 12"
      "MacAddress 13 14 15 16 17 18" "0x0841" ?aad plain_ccm_decrypt 0 "0x1234" "[1, 2, 3]"
      failing_ccm_encrypt "[1, 2, 3]"] example_aad d e
  show ?thesis by blast
qed


lemma ccm_max_message_length_13: "ccm_max_message_length 13 = 65535"
  by (simp add: ccm_max_message_length_def)

lemma length_EncryptDataFrame_nonce: "length (EncryptDataFrame_nonce s q) = 13"
  by (simp add: EncryptDataFrame_nonce_eq length_mac_bytes length_u16_be_bytes)

lemma length_plain_tag: "length (plain_tag t n a) = t"
  by (simp add: plain_tag_def)

lemma limited_ccm_encrypt_13:
  "length n = 13 \<Longrightarrow>
     limited_ccm_encrypt t k n a p = (if length p \<le> 65535 then Some (p @ plain_tag t n a) else None)"
  by (simp add: limited_ccm_encrypt_def plain_ccm_encrypt_def ccm_max_message_length_13)

lemma limited_ccm_contract: "ccm_contract limited_ccm_encrypt plain_ccm_decrypt"
  by (simp add: ccm_contract_def limited_ccm_encrypt_def plain_ccm_encrypt_def
      plain_ccm_decrypt_def length_plain_tag)

text \<open>
  C1, as amended: for every payload of at most 65535 bytes (the longest message CCM takes
  with the 13-byte nonce), every key, sender, receiver and bssid address, sequence number
  and frame control with exactly one of to-DS and from-DS set, \<open>EncryptDataFrame\<close> returns
  a ciphertext, 8 bytes longer than the payload and with nothing logged, and
  \<open>DecryptDataFrame\<close> applied to it under the same key, addresses, sequence number and frame
  control returns the payload. The engine is the collaborator's: the statement is for
  every engine that keeps the CCM contract.
\<close>
theorem encrypt_decrypt_roundtrip:
  assumes engine: "ccm_contract enc dec"
    and ds: "bit frame_control 0 \<noteq> bit frame_control 1"
    and fits: "length payload \<le> 65535"
  shows "\<exists>cipher.
           EncryptDataFrame enc payload key sender receiver bssid seq frame_control
             = Inr ([], cipher)
         \<and> length cipher = length payload + 8
         \<and> DecryptDataFrame dec cipher key sender receiver bssid seq frame_control
             = Inr ([], payload)"
proof -
  from ds have "to_ds_bit frame_control \<noteq> from_ds_bit frame_control"
    by (simp add: to_ds_bit_iff from_ds_bit_iff)
  then obtain aad where aad: "GenerateCCMPAAD sender receiver bssid frame_control = Inr aad"
    using GenerateCCMPAAD_valid by blast
  let ?nonce = "EncryptDataFrame_nonce sender seq"
  have nonce: "DecryptDataFrame_nonce sender seq = ?nonce"
    by (simp add: EncryptDataFrame_nonce_eq DecryptDataFrame_nonce_eq)
  have "7 \<le> length ?nonce \<and> length ?nonce \<le> 13
      \<and> length payload \<le> ccm_max_message_length (length ?nonce)"
    using fits by (simp add: length_EncryptDataFrame_nonce ccm_max_message_length_13)
  with engine obtain cipher where enc: "enc 8 key ?nonce aad payload = Some cipher"
    and len: "length cipher = length payload + 8"
    and dec: "dec 8 key ?nonce aad (of_nat (length payload)) cipher = Some payload"
    unfolding ccm_contract_def by blast
  have e: "EncryptDataFrame enc payload key sender receiver bssid seq frame_control
      = Inr ([], cipher)"
    by (simp add: EncryptDataFrame_def aad enc)
  have "(of_nat (length cipher) :: size_t) - 8 = of_nat (length payload)"
    by (simp add: len)
  with dec have d: "DecryptDataFrame dec cipher key sender receiver bssid seq frame_control
      = Inr ([], payload)"
    by (simp add: DecryptDataFrame_def aad nonce)
  from e len d show ?thesis by blast
qed

text \<open>
  The round trip run on the stand-in engine.
\<close>
theorem encrypt_decrypt_roundtrip_witness:
  "ccm_contract limited_ccm_encrypt plain_ccm_decrypt
   \<and> bit (0x0841 :: u16) 0 \<noteq> bit (0x0841 :: u16) 1
   \<and> length [1, 2, 3 :: u8] \<le> 65535
   \<and> EncryptDataFrame limited_ccm_encrypt [1, 2, 3] 0 (MacAddress 1 2 3 4 5 6)
       (MacAddress 7 8 9 10 11 12) (MacAddress 13 14 15 16 17 18) 0x1234 0x0841
     = Inr ([], [1, 2, 3, 0, 1, 2, 3, 4, 5, 6, 0])
   \<and> DecryptDataFrame plain_ccm_decrypt [1, 2, 3, 0, 1, 2, 3, 4, 5, 6, 0] 0
       (MacAddress 1 2 3 4 5 6) (MacAddress 7 8 9 10 11 12) (MacAddress 13 14 15 16 17 18)
       0x1234 0x0841
     = Inr ([], [1, 2, 3])"
proof -
  have ds: "bit (0x0841 :: u16) 0 \<noteq> bit (0x0841 :: u16) 1"
    by (simp add: bit_0 bit_numeral_rec)
  have fits: "length [1, 2, 3 :: u8] \<le> 65535"
    by simp
  have e: "EncryptDataFrame limited_ccm_encrypt [1, 2, 3] 0 (MacAddress 1 2 3 4 5 6)
       (MacAddress 7 8 9 10 11 12) (MacAddress 13 14 15 16 17 18) 0x1234 0x0841
     = Inr ([], [1, 2, 3, 0, 1, 2, 3, 4, 5, 6, 0])"
    by (simp add: EncryptDataFrame_def example_aad example_nonce limited_ccm_encrypt_13
        plain_tag_def)
  from encrypt_decrypt_roundtrip [OF limited_ccm_contract ds fits, of 0 "MacAddress 1 2 3 4 5 6"
      "MacAddress 7 8 9 10 11 12" "MacAddress 13 14 15 16 17 18" "0x1234"]
  obtain cipher where
    "EncryptDataFrame limited_ccm_encrypt [1, 2, 3] 0 (MacAddress 1 2 3 4 5 6)
       (MacAddress 7 8 9 10 11 12) (MacAddress 13 14 15 16 17 18) 0x1234 0x0841
     = Inr ([], cipher)"
    and "DecryptDataFrame plain_ccm_decrypt cipher 0
       (MacAddress 1 2 3 4 5 6) (MacAddress 7 8 9 10 11 12) (MacAddress 13 14 15 16 17 18)
       0x1234 0x0841 = Inr ([], [1, 2, 3])"
    by blast
  with e have "DecryptDataFrame plain_ccm_decrypt [1, 2, 3, 0, 1, 2, 3, 4, 5, 6, 0] 0
       (MacAddress 1 2 3 4 5 6) (MacAddress 7 8 9 10 11 12) (MacAddress 13 14 15 16 17 18)
       0x1234 0x0841 = Inr ([], [1, 2, 3])"
    by simp
  with limited_ccm_contract ds fits e show ?thesis by blast
qed

text \<open>
  C1 as stated fails: an engine that keeps the contract throws for a payload of 65536
  bytes, \<open>EncryptDataFrame\<close> logs the failure and returns the empty vector, and
  \<open>DecryptDataFrame\<close> applied to the empty vector logs its own failure and returns the empty
  vector, not the payload.
\<close>
theorem encrypt_decrypt_roundtrip_counterexample:
  "ccm_contract limited_ccm_encrypt plain_ccm_decrypt
   \<and> bit (0x0841 :: u16) 0 \<noteq> bit (0x0841 :: u16) 1
   \<and> EncryptDataFrame limited_ccm_encrypt (replicate 65536 0) 0 (MacAddress 1 2 3 4 5 6)
       (MacAddress 7 8 9 10 11 12) (MacAddress 13 14 15 16 17 18) 0x1234 0x0841
     = Inr ([''failed to encrypt''], [])
   \<and> DecryptDataFrame plain_ccm_decrypt [] 0 (MacAddress 1 2 3 4 5 6)
       (MacAddress 7 8 9 10 11 12) (MacAddress 13 14 15 16 17 18) 0x1234 0x0841
     = Inr ([''failed to decrypt''], [])
   \<and> replicate 65536 (0 :: u8) \<noteq> []"
proof -
  have ds: "bit (0x0841 :: u16) 0 \<noteq> bit (0x0841 :: u16) 1"
    by (simp add: bit_0 bit_numeral_rec)
  have e: "EncryptDataFrame limited_ccm_encrypt (replicate 65536 0) 0 (MacAddress 1 2 3 4 5 6)
       (MacAddress 7 8 9 10 11 12) (MacAddress 13 14 15 16 17 18) 0x1234 0x0841
     = Inr ([''failed to encrypt''], [])"
    by (simp add: EncryptDataFrame_def example_aad example_nonce limited_ccm_encrypt_13)
  have d: "DecryptDataFrame plain_ccm_decrypt [] 0 (MacAddress 1 2 3 4 5 6)
       (MacAddress 7 8 9 10 11 12) (MacAddress 13 14 15 16 17 18) 0x1234 0x0841
     = Inr ([''failed to decrypt''], [])"
    by (simp add: DecryptDataFrame_def example_aad plain_ccm_decrypt_def)
  have "replicate 65536 (0 :: u8) \<noteq> []"
    by simp
  with limited_ccm_contract ds e d show ?thesis by blast
qed

text \<open>
  C5: the nonce of both crypto functions is 13 bytes: a zero priority byte, the six bytes
  of the sender address, and a packet number of four zero bytes followed by the sequence
  number, high byte first; encryption and decryption build the same nonce from the same
  inputs, and it is the nonce each hands to the engine.
\<close>
theorem ccm_nonce_layout:
  "EncryptDataFrame_nonce sender seq = DecryptDataFrame_nonce sender seq
   \<and> length (EncryptDataFrame_nonce sender seq) = 13
   \<and> EncryptDataFrame_nonce sender seq
       = [0] @ mac_bytes sender @ [0, 0, 0, 0] @ [ucast (drop_bit 8 seq), ucast seq]
   \<and> u16_be_read (drop 11 (EncryptDataFrame_nonce sender seq)) = seq
   \<and> (GenerateCCMPAAD sender receiver bssid frame_control = Inr aad \<longrightarrow>
        EncryptDataFrame enc payload key sender receiver bssid seq frame_control
          = (case enc 8 key ([0] @ mac_bytes sender @ [0, 0, 0, 0]
                               @ [ucast (drop_bit 8 seq), ucast seq]) aad payload of
               Some cipher \<Rightarrow> Inr ([], cipher)
             | None \<Rightarrow> Inr ([''failed to encrypt''], []))
      \<and> DecryptDataFrame dec encrypted_payload key sender receiver bssid seq frame_control
          = (case dec 8 key ([0] @ mac_bytes sender @ [0, 0, 0, 0]
                               @ [ucast (drop_bit 8 seq), ucast seq]) aad
                    (of_nat (length encrypted_payload) - 8) encrypted_payload of
               Some pdata \<Rightarrow> Inr ([], pdata)
             | None \<Rightarrow> Inr ([''failed to decrypt''], [])))"
proof (intro conjI impI)
  show "EncryptDataFrame_nonce sender seq = DecryptDataFrame_nonce sender seq"
    by (simp add: EncryptDataFrame_nonce_eq DecryptDataFrame_nonce_eq)
  show "length (EncryptDataFrame_nonce sender seq) = 13"
    by (simp add: EncryptDataFrame_nonce_eq length_mac_bytes length_u16_be_bytes)
  show e: "EncryptDataFrame_nonce sender seq
       = [0] @ mac_bytes sender @ [0, 0, 0, 0] @ [ucast (drop_bit 8 seq), ucast seq]"
    by (simp add: EncryptDataFrame_nonce_eq u16_be_bytes_def)
  have "drop 11 (EncryptDataFrame_nonce sender seq) = u16_be_bytes seq"
    by (simp add: EncryptDataFrame_nonce_eq length_mac_bytes)
  then show "u16_be_read (drop 11 (EncryptDataFrame_nonce sender seq)) = seq"
    by (simp add: u16_be_read_bytes)
next
  assume aad: "GenerateCCMPAAD sender receiver bssid frame_control = Inr aad"
  show "EncryptDataFrame enc payload key sender receiver bssid seq frame_control
          = (case enc 8 key ([0] @ mac_bytes sender @ [0, 0, 0, 0]
                               @ [ucast (drop_bit 8 seq), ucast seq]) aad payload of
               Some cipher \<Rightarrow> Inr ([], cipher)
             | None \<Rightarrow> Inr ([''failed to encrypt''], []))"
    by (simp add: EncryptDataFrame_def aad EncryptDataFrame_nonce_eq u16_be_bytes_def)
  show "DecryptDataFrame dec encrypted_payload key sender receiver bssid seq frame_control
          = (case dec 8 key ([0] @ mac_bytes sender @ [0, 0, 0, 0]
                               @ [ucast (drop_bit 8 seq), ucast seq]) aad
                    (of_nat (length encrypted_payload) - 8) encrypted_payload of
               Some pdata \<Rightarrow> Inr ([], pdata)
             | None \<Rightarrow> Inr ([''failed to decrypt''], []))"
    by (simp add: DecryptDataFrame_def aad DecryptDataFrame_nonce_eq u16_be_bytes_def)
qed


text \<open>
  The probing engines return the nonce they receive.
\<close>
theorem ccm_nonce_layout_witness:
  "GenerateCCMPAAD (MacAddress 1 2 3 4 5 6) (MacAddress 7 8 9 10 11 12)
        (MacAddress 13 14 15 16 17 18) 0x0841
     = Inr [0x08, 0x41, 13, 14, 15, 16, 17, 18, 1, 2, 3, 4, 5, 6, 7, 8, 9, 10, 11, 12, 0, 0]
   \<and> EncryptDataFrame nonce_probe_encrypt [1, 2, 3] 0 (MacAddress 1 2 3 4 5 6)
       (MacAddress 7 8 9 10 11 12) (MacAddress 13 14 15 16 17 18) 0x1234 0x0841
     = Inr ([], [0, 1, 2, 3, 4, 5, 6, 0, 0, 0, 0, 0x12, 0x34])
   \<and> DecryptDataFrame nonce_probe_decrypt [9, 9, 9, 9, 9, 9, 9, 9, 9] 0 (MacAddress 1 2 3 4 5 6)
       (MacAddress 7 8 9 10 11 12) (MacAddress 13 14 15 16 17 18) 0x1234 0x0841
     = Inr ([], [0, 1, 2, 3, 4, 5, 6, 0, 0, 0, 0, 0x12, 0x34])"
  using ccm_nonce_layout [of "MacAddress 1 2 3 4 5 6" "0x1234" "MacAddress 7 8 9 10 11 12"
      "MacAddress 13 14 15 16 17 18" "0x0841"
      "[0x08, 0x41, 13, 14, 15, 16, 17, 18, 1, 2, 3, 4, 5, 6, 7, 8, 9, 10, 11, 12, 0, 0]"
      nonce_probe_encrypt "[1, 2, 3]" 0 nonce_probe_decrypt "[9, 9, 9, 9, 9, 9, 9, 9, 9]"]
    example_aad
  by (simp add: nonce_probe_encrypt_def nonce_probe_decrypt_def)

lemma u16_be_read_Cons [simp]: "u16_be_read (ucast (drop_bit 8 v) # ucast v # rest) = v"
  using u16_be_read_bytes [of v] by (simp add: u16_be_read_def u16_be_bytes_def)

lemma SecureDataHeader_read_bytes: "SecureDataHeader_read (SecureDataHeader_bytes sh @ rest) = sh"
  by (simp add: SecureDataHeader_read_def SecureDataHeader_bytes_def u16_be_bytes_def)

lemma length_SecureDataHeader_bytes: "length (SecureDataHeader_bytes sh) = sizeof_SecureDataHeader"
  by (simp add: SecureDataHeader_bytes_def sizeof_SecureDataHeader_def u16_be_bytes_def)

lemma of_nat_mod_size_t: "(of_nat (m mod 2 ^ 64) :: u16) = of_nat m"
proof -
  have "(2 :: nat) ^ 16 dvd 2 ^ 64"
    by (rule le_imp_power_dvd) simp
  then have "m mod 2 ^ 64 mod 2 ^ 16 = m mod 2 ^ 16"
    by (rule mod_mod_cancel)
  then show ?thesis
    by (simp add: word_of_nat_eq_iff take_bit_eq_mod)
qed

lemma unat_ucast_u16_size_t: "unat (ucast (x :: u16) :: size_t) = unat x"
  by (simp add: unsigned_ucast_eq take_bit_nat_eq_self_iff) (rule less_trans [OF unsigned_less], simp)

lemma trunc_size_add: "(ucast ((ucast (x :: u16) :: size_t) + of_nat n) :: u16) = x + of_nat n"
proof -
  have "unat ((ucast x :: size_t) + of_nat n) = (unat x + n) mod 2 ^ 64"
    by (simp add: unat_word_ariths unat_of_nat unat_ucast_u16_size_t mod_simps)
  then have "(ucast ((ucast x :: size_t) + of_nat n) :: u16) = of_nat ((unat x + n) mod 2 ^ 64)"
    by (metis of_nat_unat)
  also have "\<dots> = of_nat (unat x + n)"
    by (rule of_nat_mod_size_t)
  finally show ?thesis by simp
qed

lemma trunc_size_add_sub:
  "(ucast ((ucast (x :: u16) :: size_t) + of_nat (n + 4) - 4) :: u16) = x + of_nat n"
proof -
  have "(ucast x :: size_t) + of_nat (n + 4) - 4 = ucast x + of_nat n"
    by simp
  then show ?thesis by (simp only: trunc_size_add)
qed

lemma trunc_length: "(ucast (of_nat n :: size_t) :: u16) = of_nat n"
proof -
  have "(ucast (of_nat n :: size_t) :: u16) = of_nat (unat (of_nat n :: size_t))"
    by simp
  also have "\<dots> = of_nat (n mod 2 ^ 64)"
    by (simp add: unat_of_nat)
  also have "\<dots> = of_nat n"
    by (rule of_nat_mod_size_t)
  finally show ?thesis .
qed

lemma unat_of_nat_u16: "n < 2 ^ 16 \<Longrightarrow> unat (of_nat n :: u16) = n"
  by (simp add: unat_of_nat)

lemma length_GenerateLLCHeader: "length (GenerateLLCHeader h p) = sizeof_LLCHeader h"
  by (simp add: GenerateLLCHeader_def LLCHeader_bytes_def sizeof_LLCHeader_def length_u16_be_bytes)

lemma GenerateSecureDataHeader_eq:
  "GenerateSecureDataHeader data_size channel dest src seq =
     SecureDataHeader_bytes
       \<lparr>protocol_size = data_size + 12, securedata_size = data_size + 8, is_management = 0,
        data_channel = channel, sequence_number = seq, dest_node_id = dest,
        src_node_id = src\<rparr>"
proof -
  have a: "(ucast ((ucast data_size :: size_t) + of_nat sizeof_SecureDataHeader) :: u16)
             = data_size + 12"
    using trunc_size_add [of data_size 12] by (simp add: sizeof_SecureDataHeader_def)
  have b: "(ucast ((ucast data_size :: size_t) + of_nat sizeof_SecureDataHeader - 4) :: u16)
             = data_size + 8"
    using trunc_size_add_sub [of data_size 8] by (simp add: sizeof_SecureDataHeader_def)
  show ?thesis
    unfolding GenerateSecureDataHeader_def Let_def a b by simp
qed

lemma GenerateDataPayload_eq:
  "GenerateDataPayload h data channel dest src seq =
     GenerateLLCHeader h (EtherType_SecureData h)
       @ GenerateSecureDataHeader (of_nat (length data)) channel dest src seq @ data"
  by (simp add: GenerateDataPayload_def Let_def trunc_length)

lemma memcpy_from_middle:
  "length b = n \<Longrightarrow> memcpy_from (a @ b @ c) (length a) n = Inr b"
  by (simp add: memcpy_from_def)

lemma ParseSecureDataHeader_GenerateDataPayload:
  "ParseSecureDataHeader h (GenerateDataPayload h data channel dest src seq) =
     Inr \<lparr>protocol_size = of_nat (length data) + 12, securedata_size = of_nat (length data) + 8,
          is_management = 0, data_channel = channel, sequence_number = seq,
          dest_node_id = dest, src_node_id = src\<rparr>"
proof -
  let ?hd = "\<lparr>protocol_size = of_nat (length data) + 12,
              securedata_size = of_nat (length data) + 8,
              is_management = 0, data_channel = channel, sequence_number = seq,
              dest_node_id = dest, src_node_id = src\<rparr>"
  have "memcpy_from (GenerateLLCHeader h (EtherType_SecureData h) @ SecureDataHeader_bytes ?hd @ data)
          (length (GenerateLLCHeader h (EtherType_SecureData h))) sizeof_SecureDataHeader
        = Inr (SecureDataHeader_bytes ?hd)"
    by (rule memcpy_from_middle) (rule length_SecureDataHeader_bytes)
  then show ?thesis
    using SecureDataHeader_read_bytes [of ?hd "[]"]
    by (simp add: ParseSecureDataHeader_def GenerateDataPayload_eq GenerateSecureDataHeader_eq
        length_GenerateLLCHeader)
qed

text \<open>
  C2, as amended: for every payload, channel, node ids and sequence number, parsing the
  SecureData header out of the frame built by \<open>GenerateDataPayload\<close> recovers the channel,
  sequence number and node ids that were supplied, a cleared management flag, and the two
  size fields as 16-bit values: the payload length plus the header size, and that less 4,
  both modulo \<open>2 ^ 16\<close>. Whenever payload length plus header size fits 16 bits the fields
  are exactly these numbers.
\<close>
theorem data_payload_header_roundtrip:
  "ParseSecureDataHeader h (GenerateDataPayload h data channel dest src seq) =
     Inr \<lparr>protocol_size = of_nat (length data + sizeof_SecureDataHeader),
          securedata_size = of_nat (length data + sizeof_SecureDataHeader) - 4,
          is_management = 0, data_channel = channel, sequence_number = seq,
          dest_node_id = dest, src_node_id = src\<rparr>
   \<and> (length data + sizeof_SecureDataHeader < 2 ^ 16 \<longrightarrow>
        unat (of_nat (length data + sizeof_SecureDataHeader) :: u16)
          = length data + sizeof_SecureDataHeader
      \<and> unat (of_nat (length data + sizeof_SecureDataHeader) - 4 :: u16)
          = length data + sizeof_SecureDataHeader - 4)"
proof (intro conjI impI)
  show "ParseSecureDataHeader h (GenerateDataPayload h data channel dest src seq) =
     Inr \<lparr>protocol_size = of_nat (length data + sizeof_SecureDataHeader),
          securedata_size = of_nat (length data + sizeof_SecureDataHeader) - 4,
          is_management = 0, data_channel = channel, sequence_number = seq,
          dest_node_id = dest, src_node_id = src\<rparr>"
    by (simp add: ParseSecureDataHeader_GenerateDataPayload sizeof_SecureDataHeader_def)
next
  assume fits: "length data + sizeof_SecureDataHeader < 2 ^ 16"
  then show "unat (of_nat (length data + sizeof_SecureDataHeader) :: u16)
          = length data + sizeof_SecureDataHeader"
    by (rule unat_of_nat_u16)
  have eq: "(of_nat (length data + sizeof_SecureDataHeader) - 4 :: u16) = of_nat (length data + 8)"
    by (simp add: sizeof_SecureDataHeader_def)
  from fits have "length data + 8 < 2 ^ 16"
    by (simp add: sizeof_SecureDataHeader_def)
  then have "unat (of_nat (length data + 8) :: u16) = length data + 8"
    by (rule unat_of_nat_u16)
  then show "unat (of_nat (length data + sizeof_SecureDataHeader) - 4 :: u16)
          = length data + sizeof_SecureDataHeader - 4"
    unfolding eq by (simp add: sizeof_SecureDataHeader_def)
qed

text \<open>
  A three-byte payload.
\<close>
theorem data_payload_header_roundtrip_witness:
  "length [1, 2, 3 :: u8] + sizeof_SecureDataHeader < 2 ^ 16
   \<and> ParseSecureDataHeader example_decls (GenerateDataPayload example_decls [1, 2, 3] 1 2 3 5)
     = Inr \<lparr>protocol_size = 15, securedata_size = 11, is_management = 0, data_channel = 1,
            sequence_number = 5, dest_node_id = 2, src_node_id = 3\<rparr>
   \<and> unat (15 :: u16) = length [1, 2, 3 :: u8] + sizeof_SecureDataHeader"
  using data_payload_header_roundtrip [of example_decls "[1, 2, 3]" 1 2 3 5]
  by (simp add: sizeof_SecureDataHeader_def)

text \<open>
  C2 as stated fails: a payload of 65535 bytes has a length that fits the 16-bit field,
  yet the parsed protocol size is 11 and not 65547, since the sum with the header size
  wraps around.
\<close>
theorem data_payload_header_counterexample:
  "length (replicate 65535 (0 :: u8)) < 2 ^ 16
   \<and> length (replicate 65535 (0 :: u8)) + sizeof_SecureDataHeader = 65547
   \<and> ParseSecureDataHeader example_decls
        (GenerateDataPayload example_decls (replicate 65535 0) 1 2 3 5)
     = Inr \<lparr>protocol_size = 11, securedata_size = 7, is_management = 0, data_channel = 1,
            sequence_number = 5, dest_node_id = 2, src_node_id = 3\<rparr>"
  by (simp add: ParseSecureDataHeader_GenerateDataPayload sizeof_SecureDataHeader_def)

text \<open>
  C8, as amended: \<open>ParseSecureDataHeader\<close> and \<open>GetFrameEtherType\<close> check no length and have
  no failure value. On an input of at least the LLC header plus the SecureData header
  (for the ether type: of at least the LLC header) they return what the bytes at the
  fixed offset decode to; on a shorter input the copy reads past the end of the vector.
  Neither ever yields \<open>TruncatedFrame\<close>.
\<close>
theorem parsers_do_not_check_length:
  "(sizeof_LLCHeader h + sizeof_SecureDataHeader \<le> length data \<longrightarrow>
      ParseSecureDataHeader h data
        = Inr (SecureDataHeader_read (take sizeof_SecureDataHeader (drop (sizeof_LLCHeader h) data))))
   \<and> (length data < sizeof_LLCHeader h + sizeof_SecureDataHeader \<longrightarrow>
      ParseSecureDataHeader h data = Inl ReadPastEnd)
   \<and> (sizeof_LLCHeader h \<le> length frame \<longrightarrow>
      GetFrameEtherType h frame
        = Inr (u16_be_read (drop (length (llc_fixed_bytes h)) frame)))
   \<and> (length frame < sizeof_LLCHeader h \<longrightarrow> GetFrameEtherType h frame = Inl ReadPastEnd)
   \<and> ParseSecureDataHeader h data \<noteq> Inl TruncatedFrame
   \<and> GetFrameEtherType h frame \<noteq> Inl TruncatedFrame"
proof (intro conjI impI)
  assume "sizeof_LLCHeader h + sizeof_SecureDataHeader \<le> length data"
  then show "ParseSecureDataHeader h data
        = Inr (SecureDataHeader_read (take sizeof_SecureDataHeader (drop (sizeof_LLCHeader h) data)))"
    by (simp add: ParseSecureDataHeader_def memcpy_from_def)
next
  assume "length data < sizeof_LLCHeader h + sizeof_SecureDataHeader"
  then show "ParseSecureDataHeader h data = Inl ReadPastEnd"
    by (simp add: ParseSecureDataHeader_def memcpy_from_def)
next
  assume len: "sizeof_LLCHeader h \<le> length frame"
  then have "u16_be_read (drop (length (llc_fixed_bytes h)) (take (sizeof_LLCHeader h) frame))
      = u16_be_read (drop (length (llc_fixed_bytes h)) frame)"
    by (simp add: u16_be_read_def sizeof_LLCHeader_def)
  with len show "GetFrameEtherType h frame
        = Inr (u16_be_read (drop (length (llc_fixed_bytes h)) frame))"
    by (simp add: GetFrameEtherType_def memcpy_from_def LLCHeader_read_def)
next
  assume "length frame < sizeof_LLCHeader h"
  then show "GetFrameEtherType h frame = Inl ReadPastEnd"
    by (simp add: GetFrameEtherType_def memcpy_from_def)
next
  show "ParseSecureDataHeader h data \<noteq> Inl TruncatedFrame"
    by (simp add: ParseSecureDataHeader_def memcpy_from_def)
  show "GetFrameEtherType h frame \<noteq> Inl TruncatedFrame"
    by (simp add: GetFrameEtherType_def memcpy_from_def)
qed

lemma example_sizes:
  "sizeof_LLCHeader example_decls = 8"
  "length (llc_fixed_bytes example_decls) = 6"
  by (simp_all add: sizeof_LLCHeader_def example_decls_def)

text \<open>
  Each parser on a frame that is long enough and on one that is not.
\<close>
theorem parsers_do_not_check_length_witness:
  "sizeof_LLCHeader example_decls + sizeof_SecureDataHeader
     \<le> length [0xAA, 0xAA, 3, 0, 0, 0, 0x87, 0x6D, 0, 15, 0, 11, 0, 1, 0, 5, 0, 2, 0, 3, 1, 2, 3 :: u8]
   \<and> ParseSecureDataHeader example_decls
        [0xAA, 0xAA, 3, 0, 0, 0, 0x87, 0x6D, 0, 15, 0, 11, 0, 1, 0, 5, 0, 2, 0, 3, 1, 2, 3]
      = Inr \<lparr>protocol_size = 15, securedata_size = 11, is_management = 0, data_channel = 1,
             sequence_number = 5, dest_node_id = 2, src_node_id = 3\<rparr>
   \<and> length [0xAA, 0xAA, 3, 0, 0, 0, 0x87, 0x6D, 0, 15, 0 :: u8]
       < sizeof_LLCHeader example_decls + sizeof_SecureDataHeader
   \<and> ParseSecureDataHeader example_decls [0xAA, 0xAA, 3, 0, 0, 0, 0x87, 0x6D, 0, 15, 0]
      = Inl ReadPastEnd
   \<and> sizeof_LLCHeader example_decls \<le> length [0xAA, 0xAA, 3, 0, 0, 0, 0x88, 0x8E, 7 :: u8]
   \<and> GetFrameEtherType example_decls [0xAA, 0xAA, 3, 0, 0, 0, 0x88, 0x8E, 7] = Inr 0x888E
   \<and> length [0xAA, 0xAA, 3 :: u8] < sizeof_LLCHeader example_decls
   \<and> GetFrameEtherType example_decls [0xAA, 0xAA, 3] = Inl ReadPastEnd"
  using parsers_do_not_check_length [of example_decls
      "[0xAA, 0xAA, 3, 0, 0, 0, 0x87, 0x6D, 0, 15, 0, 11, 0, 1, 0, 5, 0, 2, 0, 3, 1, 2, 3]"
      "[0xAA, 0xAA, 3, 0, 0, 0, 0x88, 0x8E, 7]"]
    parsers_do_not_check_length [of example_decls
      "[0xAA, 0xAA, 3, 0, 0, 0, 0x87, 0x6D, 0, 15, 0]" "[0xAA, 0xAA, 3]"]
  by (simp add: example_sizes sizeof_SecureDataHeader_def SecureDataHeader_read_def
      u16_be_read_def)

text \<open>
  C8 as stated fails: on a three-byte input neither parser reports \<open>TruncatedFrame\<close>; both
  read past the end.
\<close>
theorem parsers_truncated_counterexample:
  "length ([0xAA, 0xAA, 3] :: u8 list) < sizeof_LLCHeader example_decls
   \<and> ParseSecureDataHeader example_decls [0xAA, 0xAA, 3] = Inl ReadPastEnd
   \<and> ParseSecureDataHeader example_decls [0xAA, 0xAA, 3] \<noteq> Inl TruncatedFrame
   \<and> GetFrameEtherType example_decls [0xAA, 0xAA, 3] = Inl ReadPastEnd
   \<and> GetFrameEtherType example_decls [0xAA, 0xAA, 3] \<noteq> Inl TruncatedFrame"
  by (simp add: ParseSecureDataHeader_def GetFrameEtherType_def memcpy_from_def example_sizes
      sizeof_SecureDataHeader_def)

lemma length_GenerateSecureDataHeader:
  "length (GenerateSecureDataHeader data_size channel dest src seq) = sizeof_SecureDataHeader"
  by (simp add: GenerateSecureDataHeader_eq length_SecureDataHeader_bytes)

text \<open>
  C9, as amended: \<open>GenerateSecureDataHeader\<close> takes its size as a 16-bit value and returns
  a header for every such value; \<open>GenerateDataPayload\<close> rejects no payload: it truncates
  the payload's length to 16 bits and returns the LLC header, the SecureData header for
  the truncated length and the whole payload.
\<close>
theorem payload_size_never_rejected:
  "GenerateSecureDataHeader data_size channel dest src seq
     = SecureDataHeader_bytes
         \<lparr>protocol_size = data_size + of_nat sizeof_SecureDataHeader,
          securedata_size = data_size + of_nat sizeof_SecureDataHeader - 4,
          is_management = 0, data_channel = channel, sequence_number = seq,
          dest_node_id = dest, src_node_id = src\<rparr>
   \<and> length (GenerateSecureDataHeader data_size channel dest src seq) = sizeof_SecureDataHeader
   \<and> GenerateDataPayload h data channel dest src seq
     = GenerateLLCHeader h (EtherType_SecureData h)
         @ GenerateSecureDataHeader (of_nat (length data mod 2 ^ 16)) channel dest src seq
         @ data
   \<and> length (GenerateDataPayload h data channel dest src seq)
     = sizeof_LLCHeader h + sizeof_SecureDataHeader + length data"
proof (intro conjI)
  show "GenerateSecureDataHeader data_size channel dest src seq
     = SecureDataHeader_bytes
         \<lparr>protocol_size = data_size + of_nat sizeof_SecureDataHeader,
          securedata_size = data_size + of_nat sizeof_SecureDataHeader - 4,
          is_management = 0, data_channel = channel, sequence_number = seq,
          dest_node_id = dest, src_node_id = src\<rparr>"
    by (simp add: GenerateSecureDataHeader_eq sizeof_SecureDataHeader_def add.commute)
  show "length (GenerateSecureDataHeader data_size channel dest src seq) = sizeof_SecureDataHeader"
    by (rule length_GenerateSecureDataHeader)
  have "(of_nat (length data mod 2 ^ 16) :: u16) = of_nat (length data)"
    by (simp add: word_of_nat_eq_iff take_bit_eq_mod)
  then show "GenerateDataPayload h data channel dest src seq
     = GenerateLLCHeader h (EtherType_SecureData h)
         @ GenerateSecureDataHeader (of_nat (length data mod 2 ^ 16)) channel dest src seq
         @ data"
    by (simp only: GenerateDataPayload_eq)
  show "length (GenerateDataPayload h data channel dest src seq)
     = sizeof_LLCHeader h + sizeof_SecureDataHeader + length data"
    by (simp add: GenerateDataPayload_eq length_GenerateLLCHeader length_GenerateSecureDataHeader)
qed

text \<open>
  C9 as stated fails: a payload of 65536 bytes is not rejected; the frame is built, with
  a header that was computed for a payload of length 0.
\<close>
theorem payload_size_counterexample:
  "2 ^ 16 - 1 < length (replicate 65536 (0 :: u8))
   \<and> GenerateDataPayload example_decls (replicate 65536 0) 1 2 3 5
     = [0xAA, 0xAA, 3, 0, 0, 0, 0x87, 0x6D] @ [0, 12, 0, 8, 0, 1, 0, 5, 0, 2, 0, 3]
         @ replicate 65536 0"
  by (simp add: GenerateDataPayload_eq GenerateSecureDataHeader_eq GenerateLLCHeader_def
      LLCHeader_bytes_def SecureDataHeader_bytes_def u16_be_bytes_def example_decls_def)

lemma u64_be_read_Cons:
  "u64_be_read (ucast (drop_bit 56 v) # ucast (drop_bit 48 v) # ucast (drop_bit 40 v)
      # ucast (drop_bit 32 v) # ucast (drop_bit 24 v) # ucast (drop_bit 16 v)
      # ucast (drop_bit 8 v) # ucast v # rest) = v"
proof (rule bit_word_eqI)
  fix n
  assume "n < LENGTH(64)"
  then have "n < 64"
    by simp
  then consider "n < 8" | "8 \<le> n" "n < 16" | "16 \<le> n" "n < 24" | "24 \<le> n" "n < 32"
    | "32 \<le> n" "n < 40" | "40 \<le> n" "n < 48" | "48 \<le> n" "n < 56" | "56 \<le> n" "n < 64"
    by linarith
  then show "bit (u64_be_read (ucast (drop_bit 56 v) # ucast (drop_bit 48 v)
      # ucast (drop_bit 40 v) # ucast (drop_bit 32 v) # ucast (drop_bit 24 v)
      # ucast (drop_bit 16 v) # ucast (drop_bit 8 v) # ucast v # rest)) n = bit v n"
    by cases (simp_all add: u64_be_read_def bit_simps less_diff_conv2)
qed

lemma length_fixed_width: "length (fixed_width n xs) = n"
  by (simp add: fixed_width_def)

lemma fixed_width_idem: "fixed_width n (fixed_width n xs) = fixed_width n xs"
  by (simp add: fixed_width_def)

lemma length_u64_be_bytes: "length (u64_be_bytes v) = 8"
  by (simp add: u64_be_bytes_def)

lemma u64_be_read_bytes: "u64_be_read (u64_be_bytes v @ rest) = v"
  by (simp add: u64_be_bytes_def u64_be_read_Cons)

lemma u16_be_read_bytes_append: "u16_be_read (u16_be_bytes v @ rest) = v"
  by (simp add: u16_be_bytes_def)

lemma EAPoLNodeInfo_read_bytes:
  "EAPoLNodeInfo_read h (EAPoLNodeInfo_bytes h n @ rest)
     = n\<lparr>eapol_username := fixed_width (username_width h) (eapol_username n)\<rparr>"
  by (simp add: EAPoLNodeInfo_read_def EAPoLNodeInfo_bytes_def u64_be_read_bytes
      length_u64_be_bytes length_fixed_width u16_be_read_bytes_append)

lemma length_EAPoLNodeInfo_bytes: "length (EAPoLNodeInfo_bytes h n) = sizeof_EAPoLNodeInfo h"
  by (simp add: EAPoLNodeInfo_bytes_def sizeof_EAPoLNodeInfo_def length_u64_be_bytes
      length_fixed_width length_u16_be_bytes)

lemma length_EAPoLStartPacket_bytes:
  "length (EAPoLStartPacket_bytes h p) = sizeof_EAPoLStartPacket h"
  by (simp add: EAPoLStartPacket_bytes_def sizeof_EAPoLStartPacket_def length_fixed_width
      length_u16_be_bytes length_EAPoLNodeInfo_bytes)

lemma EAPoLStartPacket_read_bytes:
  "node (EAPoLStartPacket_read h (EAPoLStartPacket_bytes h p @ rest))
     = (node p)\<lparr>eapol_username := fixed_width (username_width h) (eapol_username (node p))\<rparr>"
  by (simp add: EAPoLStartPacket_read_def EAPoLStartPacket_bytes_def length_fixed_width
      length_u16_be_bytes EAPoLNodeInfo_read_bytes)

lemma GenerateEAPoLStartFrame_eq:
  "GenerateEAPoLStartFrame h assoc ni =
     GenerateLLCHeader h (EtherType_EAPoL h)
       @ EAPoLStartPacket_bytes h
           \<lparr>prelude = eapol_start_prelude h, association_id = assoc,
            node = \<lparr>eapol_friend_code_seed = friend_code_seed ni,
                    eapol_username = fixed_width (username_width h) (username ni),
                    eapol_network_node_id = 0\<rparr>\<rparr>"
  by (simp add: GenerateEAPoLStartFrame_def Let_def)

lemma DeserializeNodeInfoFromFrame_id:
  "DeserializeNodeInfoFromFrame h frame = Inr result \<Longrightarrow> network_node_id result = 0"
  by (auto simp add: DeserializeNodeInfoFromFrame_def Let_def split: sum.splits)

lemma DeserializeNodeInfoFromFrame_returns:
  "sizeof_LLCHeader h + sizeof_EAPoLStartPacket h \<le> length frame
     \<Longrightarrow> \<exists>result. DeserializeNodeInfoFromFrame h frame = Inr result"
  by (simp add: DeserializeNodeInfoFromFrame_def Let_def memcpy_from_def)

lemma DeserializeNodeInfoFromFrame_Generate:
  "DeserializeNodeInfoFromFrame h (GenerateEAPoLStartFrame h assoc ni)
     = Inr \<lparr>friend_code_seed = friend_code_seed ni,
            username = fixed_width (username_width h) (username ni),
            network_node_id = 0\<rparr>"
proof -
  let ?p = "\<lparr>prelude = eapol_start_prelude h, association_id = assoc,
            node = \<lparr>eapol_friend_code_seed = friend_code_seed ni,
                    eapol_username = fixed_width (username_width h) (username ni),
                    eapol_network_node_id = 0\<rparr>\<rparr>"
  have "memcpy_from (GenerateLLCHeader h (EtherType_EAPoL h) @ EAPoLStartPacket_bytes h ?p @ [])
          (length (GenerateLLCHeader h (EtherType_EAPoL h))) (sizeof_EAPoLStartPacket h)
        = Inr (EAPoLStartPacket_bytes h ?p)"
    by (rule memcpy_from_middle) (rule length_EAPoLStartPacket_bytes)
  then show ?thesis
    using EAPoLStartPacket_read_bytes [of h ?p "[]"]
    by (simp add: DeserializeNodeInfoFromFrame_def GenerateEAPoLStartFrame_eq
        length_GenerateLLCHeader Let_def fixed_width_idem)
qed

text \<open>
  C10: for every association id and every \<open>NodeInfo\<close>, whatever its network node id, the
  frame built by \<open>GenerateEAPoLStartFrame\<close> carries a node record whose network node id is
  zero, with only the friend-code seed and the username taken from the input; and a
  \<open>NodeInfo\<close> returned by \<open>DeserializeNodeInfoFromFrame\<close> has network node id zero whatever
  the frame holds (it returns one for every frame long enough to copy the packet from).
\<close>
theorem eapol_start_node_id_zero:
  "GenerateEAPoLStartFrame h association_id' node_info
     = GenerateLLCHeader h (EtherType_EAPoL h) @ eapol_start_prelude h
         @ u16_be_bytes association_id' @ u64_be_bytes (friend_code_seed node_info)
         @ fixed_width (username_width h) (username node_info) @ [0, 0]
   \<and> eapol_network_node_id (node (EAPoLStartPacket_read h
         (drop (sizeof_LLCHeader h) (GenerateEAPoLStartFrame h association_id' node_info)))) = 0
   \<and> DeserializeNodeInfoFromFrame h (GenerateEAPoLStartFrame h association_id' node_info)
     = Inr \<lparr>friend_code_seed = friend_code_seed node_info,
            username = fixed_width (username_width h) (username node_info),
            network_node_id = 0\<rparr>
   \<and> (\<forall>result. DeserializeNodeInfoFromFrame h frame = Inr result
         \<longrightarrow> network_node_id result = 0)
   \<and> (sizeof_LLCHeader h + sizeof_EAPoLStartPacket h \<le> length frame
         \<longrightarrow> (\<exists>result. DeserializeNodeInfoFromFrame h frame = Inr result))"
proof (intro conjI allI impI)
  show "GenerateEAPoLStartFrame h association_id' node_info
     = GenerateLLCHeader h (EtherType_EAPoL h) @ eapol_start_prelude h
         @ u16_be_bytes association_id' @ u64_be_bytes (friend_code_seed node_info)
         @ fixed_width (username_width h) (username node_info) @ [0, 0]"
    by (simp add: GenerateEAPoLStartFrame_eq EAPoLStartPacket_bytes_def EAPoLNodeInfo_bytes_def
        fixed_width_idem) (simp add: fixed_width_def u16_be_bytes_def)
  have "drop (sizeof_LLCHeader h) (GenerateEAPoLStartFrame h association_id' node_info)
      = EAPoLStartPacket_bytes h
           \<lparr>prelude = eapol_start_prelude h, association_id = association_id',
            node = \<lparr>eapol_friend_code_seed = friend_code_seed node_info,
                    eapol_username = fixed_width (username_width h) (username node_info),
                    eapol_network_node_id = 0\<rparr>\<rparr> @ []"
    by (simp add: GenerateEAPoLStartFrame_eq length_GenerateLLCHeader)
  then show "eapol_network_node_id (node (EAPoLStartPacket_read h
         (drop (sizeof_LLCHeader h) (GenerateEAPoLStartFrame h association_id' node_info)))) = 0"
    by (simp only: EAPoLStartPacket_read_bytes) simp
  show "DeserializeNodeInfoFromFrame h (GenerateEAPoLStartFrame h association_id' node_info)
     = Inr \<lparr>friend_code_seed = friend_code_seed node_info,
            username = fixed_width (username_width h) (username node_info),
            network_node_id = 0\<rparr>"
    by (rule DeserializeNodeInfoFromFrame_Generate)
next
  fix result
  assume "DeserializeNodeInfoFromFrame h frame = Inr result"
  then show "network_node_id result = 0"
    by (rule DeserializeNodeInfoFromFrame_id)
next
  assume "sizeof_LLCHeader h + sizeof_EAPoLStartPacket h \<le> length frame"
  then show "\<exists>result. DeserializeNodeInfoFromFrame h frame = Inr result"
    by (rule DeserializeNodeInfoFromFrame_returns)
qed

lemma example_eapol_sizes:
  "sizeof_EAPoLStartPacket example_decls = 34"
  "length (eapol_start_prelude example_decls) = 2"
  "username_width example_decls = 20"
  by (simp_all add: sizeof_EAPoLStartPacket_def sizeof_EAPoLNodeInfo_def example_decls_def)

text \<open>
  A received frame whose node record carries the id 0xBEEF, and a sent node with id 7.
\<close>
theorem eapol_start_node_id_zero_witness:
  "sizeof_LLCHeader example_decls + sizeof_EAPoLStartPacket example_decls
     \<le> length ([0xAA, 0xAA, 3, 0, 0, 0, 0x88, 0x8E, 2, 1, 0x12, 0x34, 1, 2, 3, 4, 5, 6, 7, 8,
                 65, 0, 66, 0] @ replicate 16 0 @ [0xBE, 0xEF :: u8])
   \<and> DeserializeNodeInfoFromFrame example_decls
        ([0xAA, 0xAA, 3, 0, 0, 0, 0x88, 0x8E, 2, 1, 0x12, 0x34, 1, 2, 3, 4, 5, 6, 7, 8,
          65, 0, 66, 0] @ replicate 16 0 @ [0xBE, 0xEF])
      = Inr \<lparr>friend_code_seed = 0x0102030405060708,
             username = [65, 0, 66, 0] @ replicate 16 0,
             network_node_id = 0\<rparr>
   \<and> network_node_id \<lparr>friend_code_seed = 0x0102030405060708,
             username = [65, 0, 66, 0] @ replicate 16 0, network_node_id = 0\<rparr> = 0
   \<and> GenerateEAPoLStartFrame example_decls 0x1234
        \<lparr>friend_code_seed = 0x0102030405060708, username = [65, 0, 66, 0],
         network_node_id = 7\<rparr>
      = [0xAA, 0xAA, 3, 0, 0, 0, 0x88, 0x8E, 2, 1, 0x12, 0x34, 1, 2, 3, 4, 5, 6, 7, 8,
         65, 0, 66, 0] @ replicate 16 0 @ [0, 0]"
proof -
  let ?frame = "[0xAA, 0xAA, 3, 0, 0, 0, 0x88, 0x8E, 2, 1, 0x12, 0x34, 1, 2, 3, 4, 5, 6, 7, 8,
                 65, 0, 66, 0] @ replicate 16 0 @ [0xBE, 0xEF :: u8]"
  let ?ni = "\<lparr>friend_code_seed = 0x0102030405060708, username = [65, 0, 66, 0],
         network_node_id = 7\<rparr>"
  note t = eapol_start_node_id_zero [of example_decls "0x1234" ?ni ?frame]
  have len: "sizeof_LLCHeader example_decls + sizeof_EAPoLStartPacket example_decls
     \<le> length ?frame"
    by (simp add: example_sizes example_eapol_sizes)
  have d: "DeserializeNodeInfoFromFrame example_decls ?frame
      = Inr \<lparr>friend_code_seed = 0x0102030405060708,
             username = [65, 0, 66, 0] @ replicate 16 0,
             network_node_id = 0\<rparr>"
    by (simp add: DeserializeNodeInfoFromFrame_def memcpy_from_def example_sizes
        example_eapol_sizes EAPoLStartPacket_read_def EAPoLNodeInfo_read_def Let_def
        u64_be_read_def fixed_width_def)
  from t d have "network_node_id \<lparr>friend_code_seed = 0x0102030405060708,
             username = [65, 0, 66, 0] @ replicate 16 0, network_node_id = 0\<rparr> = 0"
    by blast
  moreover from t have "GenerateEAPoLStartFrame example_decls 0x1234 ?ni
      = [0xAA, 0xAA, 3, 0, 0, 0, 0x88, 0x8E, 2, 1, 0x12, 0x34, 1, 2, 3, 4, 5, 6, 7, 8,
         65, 0, 66, 0] @ replicate 16 0 @ [0, 0]"
    by (simp add: GenerateLLCHeader_def LLCHeader_bytes_def u16_be_bytes_def u64_be_bytes_def
        fixed_width_def example_decls_def)
  ultimately show ?thesis using len d by simp
qed

text \<open>
  C4: for every passphrase and network info, the CCMP data key is the AES-CTR encryption
  of the MD5 digest of the passphrase under the normal key of the UDS data key slot, the
  initial counter block being the MD5 digest of host MAC address, wireless community id,
  instantiation id and network id, concatenated in this order with nothing between them.
  MD5, AES-CTR and the key storage are the collaborators', and stand as parameters.
\<close>
theorem data_key_derivation:
  "GetDataCryptoCTR md5 (DataFrameCryptoCTR_bytes wlan_comm_id_bytes id_bytes network_id_bytes)
       network_info
     = md5 (mac_bytes (host_mac_address network_info)
            @ wlan_comm_id_bytes (wlan_comm_id network_info)
            @ id_bytes (id' network_info)
            @ network_id_bytes (network_id network_info))
   \<and> GenerateDataCCMPKey md5 aes_ctr GetNormalKey
       (DataFrameCryptoCTR_bytes wlan_comm_id_bytes id_bytes network_id_bytes)
       passphrase network_info
     = aes_ctr (GetNormalKey UDSDataKey)
         (md5 (mac_bytes (host_mac_address network_info)
               @ wlan_comm_id_bytes (wlan_comm_id network_info)
               @ id_bytes (id' network_info)
               @ network_id_bytes (network_id network_info)))
         (md5 passphrase)"
  by (simp add: GenerateDataCCMPKey_def GetDataCryptoCTR_def DataFrameCryptoCTR_bytes_def
      Let_def)

end
